theory Spec2Isabelle
  imports Complex_Main "HOL-Library.Multiset"
begin

section \<open>Cards and the deck builder\<close>

text \<open>
  The card types of \<^verbatim>\<open>shared/types.ts\<close>: a card is a number card (a value and a
  colour) or an operation card.
\<close>

datatype CardColor = Gold | Silver | Bronze | Dark

datatype OperationType = Add | Subtract | Multiply | Divide | SquareRoot

datatype Card = NumberCard (cardValue: nat) (cardColor: CardColor)
  | OperationCard (cardOperation: OperationType)

fun isNumber :: "Card \<Rightarrow> bool" where
  "isNumber (NumberCard v c) = True"
| "isNumber (OperationCard opn) = False"

text \<open>
  \<^verbatim>\<open>Math.random()\<close> is a stream of numbers, read one per call: \<open>rnd 0\<close> is the next
  number and \<open>nextRandom rnd\<close> the stream after the call. JavaScript promises a number
  in \<open>[0, 1)\<close>; \<open>randomOk\<close> says so. \<^verbatim>\<open>Math.floor(Math.random() * n)\<close> is
  \<open>floorRandom\<close>.
\<close>

type_synonym random = "nat \<Rightarrow> real"

definition nextRandom :: "random \<Rightarrow> random" where
  "nextRandom rnd = (\<lambda>n. rnd (Suc n))"

definition randomOk :: "random \<Rightarrow> bool" where
  "randomOk rnd = (\<forall>n. 0 \<le> rnd n \<and> rnd n < 1)"

definition floorRandom :: "random \<Rightarrow> nat \<Rightarrow> nat" where
  "floorRandom rnd n = nat \<lfloor>rnd 0 * real n\<rfloor>"

text \<open>
  \<^verbatim>\<open>createDeck\<close>: for each colour in the order gold, silver, bronze, dark the values
  0 to 10; then four times a multiply and a square-root card; then the shuffle, a loop
  \<^verbatim>\<open>for (i = deck.length - 1; i > 0; i--)\<close> that swaps \<open>deck[i]\<close> with \<open>deck[j]\<close>,
  \<open>j = Math.floor(Math.random() * (i + 1))\<close>.
\<close>

definition colors :: "CardColor list" where
  "colors = [Gold, Silver, Bronze, Dark]"

definition numberCardsOf :: "CardColor \<Rightarrow> Card list" where
  "numberCardsOf c = map (\<lambda>v. NumberCard v c) [0..<11]"

definition unshuffledDeck :: "Card list" where
  "unshuffledDeck =
     concat (map numberCardsOf colors)
     @ concat (replicate 4 [OperationCard Multiply, OperationCard SquareRoot])"

definition swapAt :: "'a list \<Rightarrow> nat \<Rightarrow> nat \<Rightarrow> 'a list" where
  "swapAt xs i j = xs[i := xs ! j, j := xs ! i]"

fun shuffleFrom :: "nat \<Rightarrow> random \<Rightarrow> 'a list \<Rightarrow> 'a list \<times> random" where
  "shuffleFrom 0 rnd xs = (xs, rnd)"
| "shuffleFrom (Suc i) rnd xs =
     shuffleFrom i (nextRandom rnd) (swapAt xs (Suc i) (floorRandom rnd (Suc i + 1)))"

definition createDeck :: "random \<Rightarrow> Card list \<times> random" where
  "createDeck rnd = shuffleFrom (length unshuffledDeck - 1) rnd unshuffledDeck"

text \<open>The composition the deck must have, card by card.\<close>

fun deckCount :: "Card \<Rightarrow> nat" where
  "deckCount (NumberCard v c) = (if v \<le> 10 then 1 else 0)"
| "deckCount (OperationCard opn) = (if opn = Multiply \<or> opn = SquareRoot then 4 else 0)"

section \<open>Players, the game state and the service\<close>

text \<open>
  \<^verbatim>\<open>Player\<close> and \<^verbatim>\<open>GameState\<close> as the service uses them. \<open>betType\<close> is \<open>None\<close>
  for JavaScript's \<^verbatim>\<open>null\<close>; an optional field is an \<open>option\<close>. Chips, bets and the
  pot are integers. An operation card a player holds in \<open>operationCards\<close> is its
  operation.
\<close>

datatype BetType = Small | Big | Both | NotSelected

record Equations =
  small :: "string option"
  big :: "string option"

record Player =
  playerId :: string
  playerName :: string
  chips :: int
  cards :: "Card list"
  operationCards :: "OperationType list"
  bet :: int
  betType :: "BetType option"
  isActive :: bool
  isFolded :: bool
  submittedEquations :: "Equations option"
  isSquareRoot :: bool
  hasMultiply :: bool

datatype Phase = Waiting | Preflop | Dealing1 | Betting1 | Dealing2 | Betting2
  | Equation | Final | Ended

record EquationResult =
  resultPlayerId :: string
  resultPlayerName :: string
  resultBetType :: BetType
  resultSmall :: "(string \<times> real) option"
  resultBig :: "(string \<times> real) option"

record GameState =
  gameId :: string
  players :: "Player list"
  deck :: "Card list"
  currentPlayer :: string
  pot :: int
  currentBet :: int
  phase :: Phase
  round :: nat
  winnersSmall :: "string list"
  winnersBig :: "string list"
  equationResults :: "EquationResult list option"

text \<open>
  What a method of \<^verbatim>\<open>GameService\<close> works on once \<^verbatim>\<open>this.games.get(gameId)\<close> has
  found the game: the game object, the random numbers still to come, whether
  \<^verbatim>\<open>setSocketIO\<close> has been called, and the players a \<^verbatim>\<open>requireSwap\<close> event has been
  emitted to (latest first). \<^verbatim>\<open>notifyGameUpdate\<close> only sends a copy of the game and is
  left out.
\<close>

record World =
  game :: GameState
  randoms :: random
  ioSet :: bool
  requireSwap :: "string list"

datatype Error = GameNotFound | PlayerNotFound | NotYourTurn | BettingPhaseOnly
  | NotWhileDealing | EquationPhaseOnly | BetsNotMatched | AmountRequired
  | BetTypeRequired | EquationsRequired | BothEquationsRequired
  | SmallEquationRequired | BigEquationRequired | BetTypeNotSelected
  | SwapCardTypeRequired | InvalidAction | BetTooLow | NotEnoughChips
  | AboveLowestChips | CardNotFound | GameAlreadyStarted | TypeError

text \<open>
  A method returns, throws (the game keeps what was written to it before the throw), or
  never returns.
\<close>

datatype Result = Returns World | Throws Error World | Hangs

definition andThen :: "Result \<Rightarrow> (World \<Rightarrow> Result) \<Rightarrow> Result" where
  "andThen r f = (case r of Returns w \<Rightarrow> f w | Throws e w \<Rightarrow> Throws e w | Hangs \<Rightarrow> Hangs)"

datatype ActionType = Bet | Fold | Call | Raise | SelectBetType | SubmitEquation
  | Continue | SwapCard | NoSwap

record GameAction =
  actionType :: ActionType
  actionPlayerId :: string
  amount :: "int option"
  actionBetType :: "BetType option"
  equations :: "Equations option"
  swapCardType :: "OperationType option"

subsection \<open>Helpers for arrays of players\<close>

fun findIndexFrom :: "nat \<Rightarrow> ('a \<Rightarrow> bool) \<Rightarrow> 'a list \<Rightarrow> nat option" where
  "findIndexFrom i P [] = None"
| "findIndexFrom i P (x # xs) = (if P x then Some i else findIndexFrom (Suc i) P xs)"

definition findIndex :: "('a \<Rightarrow> bool) \<Rightarrow> 'a list \<Rightarrow> nat option" where
  "findIndex P xs = findIndexFrom 0 P xs"

definition updatePlayer :: "nat \<Rightarrow> (Player \<Rightarrow> Player) \<Rightarrow> World \<Rightarrow> World" where
  "updatePlayer i f w =
     w\<lparr>game := (game w)\<lparr>players := (players (game w))[i := f (players (game w) ! i)]\<rparr>\<rparr>"

definition updateGame :: "(GameState \<Rightarrow> GameState) \<Rightarrow> World \<Rightarrow> World" where
  "updateGame f w = w\<lparr>game := f (game w)\<rparr>"

definition isBot :: "string \<Rightarrow> bool" where
  "isBot pid = (take 4 pid = ''bot-'')"

definition numberCount :: "Player \<Rightarrow> nat" where
  "numberCount p = length (filter isNumber (cards p))"

definition truthy :: "string option \<Rightarrow> bool" where
  "truthy s = (case s of None \<Rightarrow> False | Some e \<Rightarrow> e \<noteq> [])"

definition startingOperations :: "OperationType list" where
  "startingOperations = [Add, Subtract, Divide]"

section \<open>The equation evaluator\<close>

text \<open>
  \<^verbatim>\<open>safeEval\<close> (inside \<^verbatim>\<open>resolveEquationsAndDistributePot\<close>) splits the expression with
  \<^verbatim>\<open>expr.split(/(sqrt|[\+\-\*\/\(\)])/)\<close>, drops the blank parts, turns the parts into
  tokens, concatenates the tokens' values and hands \<^verbatim>\<open>return <equation>\<close> to
  \<^verbatim>\<open>new Function\<close>. The result is returned when \<^verbatim>\<open>isFinite\<close> accepts it; everything
  else, and every exception, is \<^verbatim>\<open>null\<close> (\<open>None\<close>).
\<close>

definition isSpace :: "char \<Rightarrow> bool" where
  "isSpace c = (of_char c \<in> set [9, 10, 11, 12, 13, 32, 160 :: nat])"

definition trim :: "string \<Rightarrow> string" where
  "trim s = rev (dropWhile isSpace (rev (dropWhile isSpace s)))"

definition isDigit :: "char \<Rightarrow> bool" where
  "isDigit c = (c \<in> set ''0123456789'')"

definition isDigits :: "string \<Rightarrow> bool" where
  "isDigits s = (s \<noteq> [] \<and> list_all isDigit s)"

definition isSeparator :: "char \<Rightarrow> bool" where
  "isSeparator c = (c \<in> set ''+-*/()'')"

text \<open>
  The split keeps the separators (the pattern is a capture group) and the text between
  them, empty strings included. \<open>k\<close> counts the characters of a matched \<^verbatim>\<open>sqrt\<close> still
  to skip, \<open>acc\<close> is the text since the last separator.
\<close>

fun splitParts :: "nat \<Rightarrow> string \<Rightarrow> string \<Rightarrow> string list" where
  "splitParts k acc [] = [acc]"
| "splitParts k acc (c # cs) =
     (if 0 < k then splitParts (k - 1) acc cs
      else if take 4 (c # cs) = ''sqrt'' then acc # ''sqrt'' # splitParts 3 [] cs
      else if isSeparator c then acc # [c] # splitParts 0 [] cs
      else splitParts 0 (acc @ [c]) cs)"

definition parts :: "string \<Rightarrow> string list" where
  "parts expr = filter (\<lambda>p. trim p \<noteq> []) (splitParts 0 [] expr)"

datatype TokenType = TNumber | TOperator | TSqrt

text \<open>The \<^verbatim>\<open>while (i < parts.length)\<close> loop; \<open>None\<close> is its \<^verbatim>\<open>return null\<close>.\<close>

fun tokens :: "string list \<Rightarrow> (TokenType \<times> string) list option" where
  "tokens [] = Some []"
| "tokens (p # rest) =
     (let part = trim p in
      if part = [] then tokens rest
      else if isDigits part then map_option ((#) (TNumber, part)) (tokens rest)
      else if part = ''sqrt'' then
        (case rest of
           [] \<Rightarrow> None
         | q # rest' \<Rightarrow>
             (let nextPart = trim q in
              if take 1 nextPart = ''('' then
                map_option ((#) (TSqrt, ''Math.sqrt'' @ nextPart)) (tokens rest')
              else if isDigits nextPart then
                map_option ((#) (TSqrt, ''Math.sqrt('' @ nextPart @ '')'')) (tokens rest')
              else None))
      else if part \<in> set [''+'', ''-'', ''*'', ''/''] then
        map_option ((#) (TOperator, part)) (tokens rest)
      else tokens rest)"

subsection \<open>What the JavaScript engine does with the equation\<close>

text \<open>
  \<^verbatim>\<open>new Function(`return ${equation}`)()\<close> is the engine's work, not the repository's.
  The equation is built from digits, the four operator characters and
  \<^verbatim>\<open>Math.sqrt(\<close> \<dots> \<^verbatim>\<open>)\<close> only, so the model covers the JavaScript that can be written
  with them: decimal and legacy octal literals, unary and binary \<^verbatim>\<open>+ -\<close>, \<^verbatim>\<open>* /\<close>,
  \<^verbatim>\<open>**\<close>, line and block comments; \<^verbatim>\<open>++\<close>, \<^verbatim>\<open>--\<close>, an unclosed parenthesis and two
  operands side by side are syntax errors. A \<^verbatim>\<open>/\<close> where an operand must stand
  starts a regular expression literal; in this arithmetic a regular expression counts as
  NaN (with \<^verbatim>\<open>+\<close> it gives a string that is not numeric, and \<^verbatim>\<open>isFinite\<close> refuses both),
  so that \<^verbatim>\<open>/2/**0\<close> is 1. Numbers are the reals with the two infinities and NaN:
  rounding, overflow and the sign of zero are not modelled, so a computation is the
  code's when every value on its way is a double, as the integers up to \<open>2\<^sup>5\<^sup>3\<close> are.
\<close>

datatype JsNumber = Num real | PosInf | NegInf | NaN

fun jsNeg :: "JsNumber \<Rightarrow> JsNumber" where
  "jsNeg (Num x) = Num (- x)"
| "jsNeg PosInf = NegInf"
| "jsNeg NegInf = PosInf"
| "jsNeg NaN = NaN"

fun jsAdd :: "JsNumber \<Rightarrow> JsNumber \<Rightarrow> JsNumber" where
  "jsAdd (Num x) (Num y) = Num (x + y)"
| "jsAdd NaN b = NaN"
| "jsAdd a NaN = NaN"
| "jsAdd PosInf NegInf = NaN"
| "jsAdd NegInf PosInf = NaN"
| "jsAdd PosInf b = PosInf"
| "jsAdd NegInf b = NegInf"
| "jsAdd a PosInf = PosInf"
| "jsAdd a NegInf = NegInf"

definition jsSign :: "bool \<Rightarrow> JsNumber" where
  "jsSign positive = (if positive then PosInf else NegInf)"

fun jsMul :: "JsNumber \<Rightarrow> JsNumber \<Rightarrow> JsNumber" where
  "jsMul (Num x) (Num y) = Num (x * y)"
| "jsMul NaN b = NaN"
| "jsMul a NaN = NaN"
| "jsMul (Num x) b = (if x = 0 then NaN else jsSign ((0 < x) = (b = PosInf)))"
| "jsMul a (Num y) = (if y = 0 then NaN else jsSign ((0 < y) = (a = PosInf)))"
| "jsMul a b = jsSign (a = b)"

fun jsDiv :: "JsNumber \<Rightarrow> JsNumber \<Rightarrow> JsNumber" where
  "jsDiv (Num x) (Num y) =
     (if y = 0 then (if x = 0 then NaN else jsSign (0 < x)) else Num (x / y))"
| "jsDiv NaN b = NaN"
| "jsDiv a NaN = NaN"
| "jsDiv (Num x) b = Num 0"
| "jsDiv a (Num y) = jsSign ((0 \<le> y) = (a = PosInf))"
| "jsDiv a b = NaN"

text \<open>\<^verbatim>\<open>base ** exponent\<close>, in the order of the language's case list.\<close>

definition isInteger :: "real \<Rightarrow> bool" where
  "isInteger y = (of_int \<lfloor>y\<rfloor> = y)"

definition isOddInteger :: "real \<Rightarrow> bool" where
  "isOddInteger y = (isInteger y \<and> odd \<lfloor>y\<rfloor>)"

fun jsPow :: "JsNumber \<Rightarrow> JsNumber \<Rightarrow> JsNumber" where
  "jsPow a NaN = NaN"
| "jsPow a (Num y) =
     (if y = 0 then Num 1
      else case a of
        NaN \<Rightarrow> NaN
      | PosInf \<Rightarrow> (if 0 < y then PosInf else Num 0)
      | NegInf \<Rightarrow> (if 0 < y then (if isOddInteger y then NegInf else PosInf) else Num 0)
      | Num x \<Rightarrow>
          (if x = 0 then (if 0 < y then Num 0 else PosInf)
           else if 0 < x then Num (x powr y)
           else if isInteger y then
             Num ((if isOddInteger y then - 1 else 1) * ((- x) powr y))
           else NaN))"
| "jsPow a PosInf =
     (case a of
        Num x \<Rightarrow> (if 1 < \<bar>x\<bar> then PosInf else if \<bar>x\<bar> = 1 then NaN else Num 0)
      | NaN \<Rightarrow> NaN
      | _ \<Rightarrow> PosInf)"
| "jsPow a NegInf =
     (case a of
        Num x \<Rightarrow> (if 1 < \<bar>x\<bar> then Num 0 else if \<bar>x\<bar> = 1 then NaN else PosInf)
      | NaN \<Rightarrow> NaN
      | _ \<Rightarrow> Num 0)"

text \<open>
  Numeric literals: a literal of several digits that starts with \<open>0\<close> and has no digit
  8 or 9 is octal (the function body is not strict code).
\<close>

definition digitValue :: "char \<Rightarrow> nat" where
  "digitValue c = of_char c - 48"

definition literalValue :: "string \<Rightarrow> nat" where
  "literalValue ds =
     (if 1 < length ds \<and> hd ds = CHR ''0'' \<and> list_all (\<lambda>c. c \<in> set ''01234567'') ds
      then foldl (\<lambda>n c. 8 * n + digitValue c) 0 ds
      else foldl (\<lambda>n c. 10 * n + digitValue c) 0 ds)"

datatype JsToken =
  NumLit nat | SqrtCall nat | RegExpLit | Plus | Minus | Star | Slash | StarStar

text \<open>The text after the \<^verbatim>\<open>*/\<close> that closes a block comment, if one does.\<close>

fun afterBlockComment :: "string \<Rightarrow> string option" where
  "afterBlockComment (c # d # cs) =
     (if c = CHR ''*'' \<and> d = CHR ''/'' then Some cs else afterBlockComment (d # cs))"
| "afterBlockComment cs = None"

lemma afterBlockComment_length:
  "afterBlockComment cs = Some r \<Longrightarrow> length r < length cs"
  by (induction cs rule: afterBlockComment.induct) (auto split: if_splits)

text \<open>
  The body of a regular expression literal, read from behind its opening \<^verbatim>\<open>/\<close>: the
  text after the closing \<^verbatim>\<open>/\<close>, or \<open>None\<close> when the literal is not closed or its
  pattern is refused. \<open>quantifiable\<close> says that an atom was just read, so that \<^verbatim>\<open>*\<close> or
  \<^verbatim>\<open>+\<close> may follow, and \<open>depth\<close> counts the open groups. Of the characters of an
  equation, \<^verbatim>\<open>*\<close> and \<^verbatim>\<open>+\<close> are quantifiers, the parentheses form groups, the dot
  and every other character are atoms.
\<close>

fun regExpBody :: "bool \<Rightarrow> nat \<Rightarrow> string \<Rightarrow> string option" where
  "regExpBody quantifiable depth [] = None"
| "regExpBody quantifiable depth (c # cs) =
     (if c = CHR ''/'' then (if depth = 0 then Some cs else None)
      else if c = CHR ''*'' \<or> c = CHR ''+'' then
        (if quantifiable then regExpBody False depth cs else None)
      else if c = CHR ''('' then regExpBody False (depth + 1) cs
      else if c = CHR '')'' then
        (if depth = 0 then None else regExpBody True (depth - 1) cs)
      else if isDigit c \<or> c \<in> set ''-.Mathsqr'' then regExpBody True depth cs
      else None)"

lemma regExpBody_length:
  "regExpBody q d cs = Some r \<Longrightarrow> length r < length cs"
  by (induction q d cs rule: regExpBody.induct) (auto split: if_splits)

text \<open>
  The lexer; \<open>None\<close> is a syntax error. \<open>operandNext\<close> says that an operand must stand
  next (at the start and after an operator), which is where \<^verbatim>\<open>/\<close> opens a regular
  expression literal instead of dividing; \<^verbatim>\<open>//\<close> and \<^verbatim>\<open>/*\<close> open a comment in both
  places. A digit or a letter right after the literal would be its flags, and none of
  them is a flag the language knows.
\<close>

function jsLex :: "bool \<Rightarrow> string \<Rightarrow> JsToken list option" where
  "jsLex operandNext [] = Some []"
| "jsLex operandNext (c # cs) =
     (if c = CHR ''/'' then
        (if take 1 cs = ''/'' then Some []
         else if take 1 cs = ''*'' then
           (case afterBlockComment (drop 1 cs) of
              None \<Rightarrow> None
            | Some r \<Rightarrow> jsLex operandNext r)
         else if operandNext then
           (case regExpBody False 0 cs of
              None \<Rightarrow> None
            | Some r \<Rightarrow>
                if r \<noteq> [] \<and> (isDigit (hd r) \<or> hd r = CHR ''M'') then None
                else map_option ((#) RegExpLit) (jsLex False r))
         else map_option ((#) Slash) (jsLex True cs))
      else if c = CHR ''*'' then
        (if take 1 cs = ''*'' then map_option ((#) StarStar) (jsLex True (drop 1 cs))
         else map_option ((#) Star) (jsLex True cs))
      else if c = CHR ''+'' then
        (if take 1 cs = ''+'' then None else map_option ((#) Plus) (jsLex True cs))
      else if c = CHR ''-'' then
        (if take 1 cs = ''-'' then None else map_option ((#) Minus) (jsLex True cs))
      else if isDigit c then
        (if take 1 (dropWhile isDigit cs) = ''M'' then None
         else map_option ((#) (NumLit (literalValue (c # takeWhile isDigit cs))))
                (jsLex False (dropWhile isDigit cs)))
      else if take 10 (c # cs) = ''Math.sqrt('' then
        (let ds = takeWhile isDigit (drop 9 cs); r = dropWhile isDigit (drop 9 cs) in
         if ds \<noteq> [] \<and> take 1 r = '')'' then
           map_option ((#) (SqrtCall (literalValue ds))) (jsLex False (drop 1 r))
         else None)
      else None)"
  by pat_completeness auto
termination
proof (relation "measure (\<lambda>(operandNext, cs). length cs)")
  fix c :: char and cs r :: string and operandNext :: bool
  assume "afterBlockComment (drop 1 cs) = Some r"
  then have "length r < length (drop 1 cs)" by (rule afterBlockComment_length)
  then show "((operandNext, r), operandNext, c # cs) \<in> measure (\<lambda>(operandNext, cs). length cs)"
    by simp
next
  fix c :: char and cs r :: string and operandNext :: bool
  assume "regExpBody False 0 cs = Some r"
  then have "length r < length cs" by (rule regExpBody_length)
  then show "((False, r), operandNext, c # cs) \<in> measure (\<lambda>(operandNext, cs). length cs)"
    by simp
next
  fix c :: char and cs :: string and operandNext :: bool
  have "length (dropWhile isDigit cs) \<le> length cs" by (rule length_dropWhile_le)
  then show "((False, dropWhile isDigit cs), operandNext, c # cs)
      \<in> measure (\<lambda>(operandNext, cs). length cs)"
    by simp
next
  fix c :: char and cs x xa :: string and operandNext :: bool
  assume "xa = dropWhile isDigit (drop 9 cs)"
  moreover have "length (dropWhile isDigit (drop 9 cs)) \<le> length (drop 9 cs)"
    by (rule length_dropWhile_le)
  ultimately show "((False, drop 1 xa), operandNext, c # cs)
      \<in> measure (\<lambda>(operandNext, cs). length cs)"
    by simp
qed simp_all

text \<open>
  The parser and the arithmetic in one pass. \<open>total\<close> is the sum of the terms read so far
  and \<open>subtracting\<close> the sign of the term being read; \<open>product\<close> is the product of that
  term's factors so far and \<open>dividing\<close> says whether the next factor divides; \<open>bases\<close>
  are the operands to the left of the \<^verbatim>\<open>**\<close> signs of the factor being read.
\<close>

record Reading =
  total :: JsNumber
  subtracting :: bool
  product :: JsNumber
  dividing :: bool
  bases :: "JsNumber list"

definition startReading :: Reading where
  "startReading = \<lparr>total = Num 0, subtracting = False, product = Num 1, dividing = False,
     bases = []\<rparr>"

definition closeFactor :: "Reading \<Rightarrow> JsNumber \<Rightarrow> Reading" where
  "closeFactor st cur =
     (let f = foldr jsPow (bases st) cur in
      st\<lparr>product := (if dividing st then jsDiv (product st) f else jsMul (product st) f),
         bases := []\<rparr>)"

definition closeTerm :: "Reading \<Rightarrow> JsNumber \<Rightarrow> Reading" where
  "closeTerm st cur =
     (let st1 = closeFactor st cur in
      st1\<lparr>total := (if subtracting st1 then jsAdd (total st1) (jsNeg (product st1))
                    else jsAdd (total st1) (product st1)),
          product := Num 1, dividing := False\<rparr>)"

text \<open>
  \<open>operand\<close> reads where an operand must stand (\<open>neg\<close>: an odd number of unary minus
  signs was read, \<open>signed\<close>: a unary sign was read), \<open>operator\<close> after the operand
  \<open>cur\<close>. A signed operand cannot be the base of \<^verbatim>\<open>**\<close>.
\<close>

fun operand :: "Reading \<Rightarrow> bool \<Rightarrow> bool \<Rightarrow> JsToken list \<Rightarrow> JsNumber option"
  and operator :: "Reading \<Rightarrow> JsNumber \<Rightarrow> bool \<Rightarrow> JsToken list \<Rightarrow> JsNumber option" where
  "operand st neg signed [] = None"
| "operand st neg signed (Plus # ts) = operand st neg True ts"
| "operand st neg signed (Minus # ts) = operand st (\<not> neg) True ts"
| "operand st neg signed (NumLit n # ts) =
     operator st (if neg then Num (- real n) else Num (real n)) signed ts"
| "operand st neg signed (SqrtCall n # ts) =
     operator st (if neg then Num (- sqrt (real n)) else Num (sqrt (real n))) signed ts"
| "operand st neg signed (RegExpLit # ts) = operator st NaN signed ts"
| "operand st neg signed (t # ts) = None"
| "operator st cur signed [] = Some (total (closeTerm st cur))"
| "operator st cur signed (StarStar # ts) =
     (if signed then None else operand (st\<lparr>bases := bases st @ [cur]\<rparr>) False False ts)"
| "operator st cur signed (Star # ts) =
     operand ((closeFactor st cur)\<lparr>dividing := False\<rparr>) False False ts"
| "operator st cur signed (Slash # ts) =
     operand ((closeFactor st cur)\<lparr>dividing := True\<rparr>) False False ts"
| "operator st cur signed (Plus # ts) =
     operand ((closeTerm st cur)\<lparr>subtracting := False\<rparr>) False False ts"
| "operator st cur signed (Minus # ts) =
     operand ((closeTerm st cur)\<lparr>subtracting := True\<rparr>) False False ts"
| "operator st cur signed (t # ts) = None"

definition jsReturn :: "string \<Rightarrow> JsNumber option" where
  "jsReturn equation =
     (case jsLex True equation of
        None \<Rightarrow> None
      | Some ts \<Rightarrow> operand startReading False False ts)"

definition safeEval :: "string \<Rightarrow> real option" where
  "safeEval expr =
     (case tokens (parts expr) of
        None \<Rightarrow> None
      | Some toks \<Rightarrow>
          if toks = [] then None
          else (case jsReturn (concat (map snd toks)) of
                  Some (Num x) \<Rightarrow> Some x
                | _ \<Rightarrow> None))"

section \<open>Scoring and payout\<close>

text \<open>
  \<^verbatim>\<open>resolveEquationsAndDistributePot\<close>. A player object is its index in \<open>players\<close>; an
  entry of \<^verbatim>\<open>results\<close> holds the index and the values of the equations that evaluated.
\<close>

record Entry =
  entryPlayer :: nat
  entrySmall :: "real option"
  entryBig :: "real option"

definition submitted :: "(Equations \<Rightarrow> string option) \<Rightarrow> Player \<Rightarrow> string option" where
  "submitted sel p = (case submittedEquations p of None \<Rightarrow> None | Some e \<Rightarrow> sel e)"

definition evaluated :: "string option \<Rightarrow> real option" where
  "evaluated e = (if truthy e then safeEval (the e) else None)"

definition betsOn :: "BetType \<Rightarrow> Player \<Rightarrow> bool" where
  "betsOn t p = (betType p = Some t \<or> betType p = Some Both)"

definition entryOf :: "Player list \<Rightarrow> nat \<Rightarrow> Entry" where
  "entryOf ps i =
     \<lparr>entryPlayer = i,
      entrySmall = (if betsOn Small (ps ! i) then evaluated (submitted small (ps ! i)) else None),
      entryBig = (if betsOn Big (ps ! i) then evaluated (submitted big (ps ! i)) else None)\<rparr>"

definition results :: "Player list \<Rightarrow> Entry list" where
  "results ps =
     map (entryOf ps)
       (filter (\<lambda>i. \<not> isFolded (ps ! i) \<and> betType (ps ! i) \<noteq> None) [0..<length ps])"

definition equationResult :: "Player list \<Rightarrow> Entry \<Rightarrow> EquationResult" where
  "equationResult ps r =
     (let p = ps ! entryPlayer r in
      \<lparr>resultPlayerId = playerId p, resultPlayerName = playerName p,
       resultBetType = the (betType p),
       resultSmall = map_option (Pair (the (submitted small p))) (entrySmall r),
       resultBig = map_option (Pair (the (submitted big p))) (entryBig r)\<rparr>)"

text \<open>
  The first pass: the players closest to the goal, in the order of \<open>results\<close>. The
  running minimum starts at \<^verbatim>\<open>Infinity\<close> (\<open>None\<close>).
\<close>

definition closer ::
  "(Entry \<Rightarrow> real option) \<Rightarrow> real \<Rightarrow> real option \<times> nat list \<Rightarrow> Entry \<Rightarrow> real option \<times> nat list" where
  "closer val goal acc r =
     (case val r of
        None \<Rightarrow> acc
      | Some v \<Rightarrow>
          (case fst acc of
             None \<Rightarrow> (Some \<bar>v - goal\<bar>, [entryPlayer r])
           | Some m \<Rightarrow>
               if \<bar>v - goal\<bar> < m then (Some \<bar>v - goal\<bar>, [entryPlayer r])
               else if \<bar>v - goal\<bar> = m then (Some m, snd acc @ [entryPlayer r])
               else acc))"

definition closest :: "(Entry \<Rightarrow> real option) \<Rightarrow> real \<Rightarrow> Entry list \<Rightarrow> nat list" where
  "closest val goal rs = snd (foldl (closer val goal) (None, []) rs)"

text \<open>
  The tie-breakers. \<^verbatim>\<open>colorValues\<close> ranks the colours; \<^verbatim>\<open>Math.min(...xs)\<close> of no
  numbers is \<^verbatim>\<open>Infinity\<close> and \<^verbatim>\<open>Math.max(...xs)\<close> is \<^verbatim>\<open>-Infinity\<close>.
  \<^verbatim>\<open>reduce\<close> without a start value folds from the first element.
\<close>

fun colorValues :: "CardColor \<Rightarrow> nat" where
  "colorValues Dark = 0"
| "colorValues Bronze = 1"
| "colorValues Silver = 2"
| "colorValues Gold = 3"

datatype Extended = MinusInfinity | Finite nat | Infinity

fun extLess :: "Extended \<Rightarrow> Extended \<Rightarrow> bool" where
  "extLess (Finite a) (Finite b) = (a < b)"
| "extLess a MinusInfinity = False"
| "extLess Infinity b = False"
| "extLess a b = True"

definition colorRanks :: "Player \<Rightarrow> nat list" where
  "colorRanks p = map (\<lambda>c. colorValues (cardColor c)) (filter isNumber (cards p))"

definition mathMin :: "nat list \<Rightarrow> Extended" where
  "mathMin xs = (if xs = [] then Infinity else Finite (foldl min (hd xs) (tl xs)))"

definition mathMax :: "nat list \<Rightarrow> Extended" where
  "mathMax xs = (if xs = [] then MinusInfinity else Finite (foldl max (hd xs) (tl xs)))"

definition reduce :: "('a \<Rightarrow> 'a \<Rightarrow> 'a) \<Rightarrow> 'a list \<Rightarrow> 'a option" where
  "reduce f xs = (if xs = [] then None else Some (foldl f (hd xs) (tl xs)))"

definition smallWinner :: "Player list \<Rightarrow> nat list \<Rightarrow> nat option" where
  "smallWinner ps ws =
     reduce (\<lambda>a b. if extLess (mathMin (colorRanks (ps ! a))) (mathMin (colorRanks (ps ! b)))
                    then a else b) ws"

definition bigWinner :: "Player list \<Rightarrow> nat list \<Rightarrow> nat option" where
  "bigWinner ps ws =
     reduce (\<lambda>a b. if extLess (mathMax (colorRanks (ps ! b))) (mathMax (colorRanks (ps ! a)))
                    then a else b) ws"

text \<open>The players who bet both and lost a target they have a value for.\<close>

definition lost :: "Player list \<Rightarrow> real option \<Rightarrow> nat option \<Rightarrow> nat \<Rightarrow> bool" where
  "lost ps v winner i =
     (v \<noteq> None \<and>
      (case winner of None \<Rightarrow> False | Some k \<Rightarrow> playerId (ps ! k) \<noteq> playerId (ps ! i)))"

definition bothBetLosers ::
  "Player list \<Rightarrow> Entry list \<Rightarrow> nat option \<Rightarrow> nat option \<Rightarrow> nat list" where
  "bothBetLosers ps rs sw bw =
     map entryPlayer
       (filter (\<lambda>r. betType (ps ! entryPlayer r) = Some Both \<and>
                    (lost ps (entrySmall r) sw (entryPlayer r) \<or>
                     lost ps (entryBig r) bw (entryPlayer r))) rs)"

definition isLoser :: "Player list \<Rightarrow> nat list \<Rightarrow> nat \<Rightarrow> bool" where
  "isLoser ps losers k = list_ex (\<lambda>i. playerId (ps ! i) = playerId (ps ! k)) losers"

definition credit :: "nat \<Rightarrow> int \<Rightarrow> GameState \<Rightarrow> GameState" where
  "credit k a g =
     g\<lparr>players := (players g)[k := (players g ! k)\<lparr>chips := chips (players g ! k) + a\<rparr>]\<rparr>"

definition paySmall :: "nat \<Rightarrow> int \<Rightarrow> GameState \<Rightarrow> GameState" where
  "paySmall k a g = (credit k a g)\<lparr>winnersSmall := [playerId (players g ! k)]\<rparr>"

definition payBig :: "nat \<Rightarrow> int \<Rightarrow> GameState \<Rightarrow> GameState" where
  "payBig k a g = (credit k a g)\<lparr>winnersBig := [playerId (players g ! k)]\<rparr>"

text \<open>
  The distribution, in the order of the \<^verbatim>\<open>if\<close> chain. \<^verbatim>\<open>Math.floor(pot / 2)\<close> is
  \<open>pot div 2\<close> and \<^verbatim>\<open>Math.ceil(pot / 2)\<close> is \<open>- (- pot div 2)\<close>.
\<close>

definition distribute ::
  "bool \<Rightarrow> bool \<Rightarrow> nat option \<Rightarrow> nat option \<Rightarrow> nat list \<Rightarrow> GameState \<Rightarrow> GameState" where
  "distribute allSmall allBig sw bw losers g =
     (let ps = players g in
      if allSmall \<and> sw \<noteq> None then paySmall (the sw) (pot g) g
      else if allBig \<and> bw \<noteq> None then payBig (the bw) (pot g) g
      else if sw \<noteq> None \<and> bw \<noteq> None \<and> playerId (ps ! the sw) = playerId (ps ! the bw) then
        (credit (the sw) (pot g) g)
          \<lparr>winnersSmall := [playerId (ps ! the sw)], winnersBig := [playerId (ps ! the bw)]\<rparr>
      else if losers \<noteq> [] then
        (if sw \<noteq> None \<and> \<not> isLoser ps losers (the sw) then paySmall (the sw) (pot g) g
         else if bw \<noteq> None \<and> \<not> isLoser ps losers (the bw) then payBig (the bw) (pot g) g
         else g)
      else
        (let g1 = (if sw \<noteq> None then paySmall (the sw) (pot g div 2) g else g)
         in if bw \<noteq> None then payBig (the bw) (- (- pot g div 2)) g1 else g1))"

definition resolveEquationsAndDistributePot :: "GameState \<Rightarrow> GameState" where
  "resolveEquationsAndDistributePot g =
     (let ps = players g;
          rs = results ps;
          sw = smallWinner ps (closest entrySmall 1 rs);
          bw = bigWinner ps (closest entryBig 20 rs)
      in (distribute
            (list_all (\<lambda>r. betType (ps ! entryPlayer r) = Some Small) rs)
            (list_all (\<lambda>r. betType (ps ! entryPlayer r) = Some Big) rs)
            sw bw (bothBetLosers ps rs sw bw)
            (g\<lparr>equationResults := Some (map (equationResult ps) rs)\<rparr>))
         \<lparr>pot := 0\<rparr>)"

section \<open>Dealing\<close>

text \<open>
  \<^verbatim>\<open>dealCards\<close> has a \<^verbatim>\<open>for\<close> loop over the players and, for each player, a
  \<^verbatim>\<open>while\<close> loop that draws until the player holds the target count of number cards.
  \<open>dealCard\<close> is the body of the \<^verbatim>\<open>while\<close> loop after \<^verbatim>\<open>game.deck.pop()\<close>:
  \<open>Dealing\<close> when the loop goes on (after a \<^verbatim>\<open>continue\<close> or at the end of the body),
  \<open>Stopped\<close> when \<^verbatim>\<open>dealCards\<close> itself returns or throws.
\<close>

datatype Dealt = Dealing World | Stopped Result

definition removeAt :: "nat \<Rightarrow> 'a list \<Rightarrow> 'a list" where
  "removeAt k xs = take k xs @ drop (Suc k) xs"

definition receive :: "Card \<Rightarrow> Player \<Rightarrow> Player" where
  "receive c p = p\<lparr>cards := cards p @ [c]\<rparr>"

definition dealCard :: "nat \<Rightarrow> Card \<Rightarrow> World \<Rightarrow> Dealt" where
  "dealCard i c w =
     (let p = players (game w) ! i in
      if c = OperationCard SquareRoot then
        Dealing (updatePlayer i (\<lambda>p. receive c (p\<lparr>isSquareRoot := True\<rparr>)) w)
      else if c = OperationCard Multiply then
        (if list_ex (\<lambda>d. d = OperationCard Multiply) (cards p) \<or> hasMultiply p then Dealing w
         else if isSquareRoot p then Dealing w
         else if operationCards p \<noteq> [] \<and> \<not> isBot (playerId p) then
           Stopped (Returns
             ((updatePlayer i (\<lambda>p. p\<lparr>hasMultiply := True\<rparr>) w)
                \<lparr>requireSwap :=
                   (if ioSet w then playerId p # requireSwap w else requireSwap w)\<rparr>))
         else if isBot (playerId p) then
           (let k = floorRandom (randoms w) (length (operationCards p));
                w1 = w\<lparr>randoms := nextRandom (randoms w)\<rparr>
            in if k < length (operationCards p) then
                 Dealing (updatePlayer i
                   (\<lambda>p. (receive c (p\<lparr>operationCards := removeAt k (operationCards p)\<rparr>))
                           \<lparr>isSquareRoot := False\<rparr>) w1)
               else Stopped (Throws TypeError (updatePlayer i (receive c) w1)))
         else Dealing (updatePlayer i (\<lambda>p. (receive c p)\<lparr>isSquareRoot := False\<rparr>) w))
      else Dealing (updatePlayer i (\<lambda>p. (receive c p)\<lparr>isSquareRoot := False\<rparr>) w))"

definition pop :: "World \<Rightarrow> World" where
  "pop w = updateGame (\<lambda>g. g\<lparr>deck := butlast (deck g)\<rparr>) w"

lemma dealCard_deck: "dealCard i c w = Dealing w' \<Longrightarrow> deck (game w') = deck (game w)"
  by (auto simp: dealCard_def updatePlayer_def Let_def split: if_splits)

function dealWhile :: "nat \<Rightarrow> nat \<Rightarrow> World \<Rightarrow> Dealt" where
  "dealWhile target i w =
     (if numberCount (players (game w) ! i) < target then
        (if deck (game w) = [] then Stopped (Returns w)
         else (case dealCard i (last (deck (game w))) (pop w) of
                 Dealing w' \<Rightarrow> dealWhile target i w'
               | Stopped r \<Rightarrow> Stopped r))
      else Dealing w)"
  by pat_completeness auto
termination
proof (relation "measure (\<lambda>(target, i, w). length (deck (game w)))")
  fix target i :: nat and w w' :: World
  assume "deck (game w) \<noteq> []"
    and "dealCard i (last (deck (game w))) (pop w) = Dealing w'"
  then show "((target, i, w'), (target, i, w))
      \<in> measure (\<lambda>(target, i, w). length (deck (game w)))"
    by (auto dest!: dealCard_deck simp: pop_def updateGame_def)
qed simp

declare dealWhile.simps [simp del]

text \<open>The \<^verbatim>\<open>for\<close> loop: \<open>n\<close> players are still to be dealt to, from index \<open>i\<close> on.\<close>

fun dealFor :: "nat \<Rightarrow> nat \<Rightarrow> nat \<Rightarrow> World \<Rightarrow> Dealt" where
  "dealFor target 0 i w = Dealing w"
| "dealFor target (Suc n) i w =
     (case dealWhile target i w of
        Dealing w' \<Rightarrow> dealFor target n (Suc i) w'
      | Stopped r \<Rightarrow> Stopped r)"

definition allPlayersHaveTargetCards :: "nat \<Rightarrow> GameState \<Rightarrow> bool" where
  "allPlayersHaveTargetCards target g =
     list_all (\<lambda>p. hasMultiply p \<or> numberCount p = target) (players g)"

definition waitingForSwap :: "GameState \<Rightarrow> bool" where
  "waitingForSwap g = list_ex hasMultiply (players g)"

text \<open>
  The retry: every player's cards are popped, the multiply cards among them go to the
  front of the deck.
\<close>

fun returnCards :: "Player list \<Rightarrow> Card list \<Rightarrow> Card list" where
  "returnCards [] d = d"
| "returnCards (p # ps) d =
     returnCards ps
       (foldl (\<lambda>d c. if c = OperationCard Multiply then c # d else d) d (rev (cards p)))"

definition takeBack :: "World \<Rightarrow> World" where
  "takeBack w =
     updateGame (\<lambda>g. g\<lparr>deck := returnCards (players g) (deck g),
                        players := map (\<lambda>p. p\<lparr>cards := []\<rparr>) (players g)\<rparr>) w"

definition firstUnfolded :: "GameState \<Rightarrow> GameState" where
  "firstUnfolded g =
     (case findIndex (\<lambda>p. \<not> isFolded p) (players g) of
        None \<Rightarrow> g
      | Some k \<Rightarrow> g\<lparr>currentPlayer := playerId (players g ! k)\<rparr>)"

definition openBetting2 :: "GameState \<Rightarrow> GameState" where
  "openBetting2 g =
     g\<lparr>phase := Betting2, currentBet := 0, players := map (\<lambda>p. p\<lparr>bet := 0\<rparr>) (players g)\<rparr>"

definition afterDealing :: "GameState \<Rightarrow> GameState" where
  "afterDealing g =
     (if waitingForSwap g then g
      else if phase g = Dealing1 then
        (if list_all (\<lambda>p. 2 \<le> numberCount p) (players g) then g\<lparr>phase := Betting1\<rparr> else g)
      else if phase g = Dealing2 then
        (if list_all (\<lambda>p. 4 \<le> numberCount p) (players g) then firstUnfolded (openBetting2 g)
         else g)
      else g)"

lemma numberCount_receive:
  "numberCount (receive c p) = numberCount p + (if isNumber c then 1 else 0)"
  by (simp add: numberCount_def receive_def)

lemma numberCount_flags [simp]:
  "numberCount (p\<lparr>isSquareRoot := b\<rparr>) = numberCount p"
  "numberCount (p\<lparr>hasMultiply := b\<rparr>) = numberCount p"
  "numberCount (p\<lparr>operationCards := ops\<rparr>) = numberCount p"
  by (simp_all add: numberCount_def)

lemma players_updatePlayer [simp]:
  "players (game (updatePlayer i f w)) = (players (game w))[i := f (players (game w) ! i)]"
  by (simp add: updatePlayer_def)

lemma dealCard_length:
  "dealCard i c w = Dealing w' \<Longrightarrow> length (players (game w')) = length (players (game w))"
  by (auto simp: dealCard_def Let_def split: if_splits)

lemma dealCard_others:
  "dealCard i c w = Dealing w' \<Longrightarrow> j \<noteq> i \<Longrightarrow>
     players (game w') ! j = players (game w) ! j"
  by (auto simp: dealCard_def Let_def split: if_splits)

lemma dealCard_count:
  assumes "dealCard i c w = Dealing w'"
  shows "numberCount (players (game w') ! i) \<le> Suc (numberCount (players (game w) ! i))"
proof (cases "i < length (players (game w))")
  case True
  with assms show ?thesis
    by (auto simp: dealCard_def Let_def numberCount_receive split: if_splits)
next
  case False
  then have "\<And>v. (players (game w))[i := v] = players (game w)" by (simp add: list_update_beyond)
  with assms show ?thesis
    by (auto simp: dealCard_def Let_def split: if_splits)
qed

lemma pop_players [simp]: "players (game (pop w)) = players (game w)"
  by (simp add: pop_def updateGame_def)

lemma dealWhile_players:
  "dealWhile t i w = Dealing w' \<Longrightarrow>
     length (players (game w')) = length (players (game w))
     \<and> (\<forall>j. j \<noteq> i \<longrightarrow> players (game w') ! j = players (game w) ! j)
     \<and> (numberCount (players (game w') ! i) = t \<or> t < numberCount (players (game w) ! i))"
proof (induction t i w rule: dealWhile.induct)
  case (1 t i w)
  show ?case
  proof (cases "numberCount (players (game w) ! i) < t")
    case False
    with "1.prems" have "w' = w" by (simp add: dealWhile.simps[of t i w])
    with False show ?thesis by auto
  next
    case True
    with "1.prems" have ne: "deck (game w) \<noteq> []"
      by (auto simp: dealWhile.simps[of t i w] split: if_splits)
    with True "1.prems" obtain w1 where
      c: "dealCard i (last (deck (game w))) (pop w) = Dealing w1" and
      r: "dealWhile t i w1 = Dealing w'"
      by (auto simp: dealWhile.simps[of t i w] split: Dealt.splits)
    note ih = "1.IH"[OF True ne c r]
    from dealCard_length[OF c] dealCard_others[OF c] dealCard_count[OF c] True ih show ?thesis by auto
  qed
qed

lemma dealFor_players:
  "dealFor t n i w = Dealing w' \<Longrightarrow>
     length (players (game w')) = length (players (game w))
     \<and> (\<forall>j. j < i \<or> i + n \<le> j \<longrightarrow> players (game w') ! j = players (game w) ! j)
     \<and> (\<forall>j. i \<le> j \<and> j < i + n \<longrightarrow>
           numberCount (players (game w') ! j) = t \<or> t < numberCount (players (game w) ! j))"
proof (induction n arbitrary: i w)
  case 0
  then show ?case by simp
next
  case (Suc n)
  from Suc.prems obtain w1 where
    a: "dealWhile t i w = Dealing w1" and b: "dealFor t n (Suc i) w1 = Dealing w'"
    by (auto split: Dealt.splits)
  note h1 = dealWhile_players[OF a]
  note h2 = Suc.IH[OF b]
  show ?case
  proof (intro conjI allI impI)
    show "length (players (game w')) = length (players (game w))" using h1 h2 by simp
  next
    fix j assume "j < i \<or> i + Suc n \<le> j"
    then show "players (game w') ! j = players (game w) ! j" using h1 h2 by auto
  next
    fix j assume j: "i \<le> j \<and> j < i + Suc n"
    show "numberCount (players (game w') ! j) = t \<or> t < numberCount (players (game w) ! j)"
    proof (cases "j = i")
      case True
      then have "players (game w') ! j = players (game w1) ! j" using h2 by auto
      then show ?thesis using h1 True by auto
    next
      case False
      then have "Suc i \<le> j \<and> j < Suc i + n" using j by auto
      then have "numberCount (players (game w') ! j) = t \<or> t < numberCount (players (game w1) ! j)"
        using h2 by blast
      moreover have "players (game w1) ! j = players (game w) ! j" using h1 False by auto
      ultimately show ?thesis by simp
    qed
  qed
qed

text \<open>
  \<^verbatim>\<open>dealCards\<close> calls itself after taking the cards back. It does so at most once: a
  player who starts a pass with no more than the target count of number cards ends it
  with exactly that count, so a second pass (which starts from empty hands) never fails
  the check. \<open>overfull\<close> is the measure of the termination proof.
\<close>

definition overfull :: "nat \<Rightarrow> World \<Rightarrow> bool" where
  "overfull t w = list_ex (\<lambda>p. t < numberCount p) (players (game w))"

lemma takeBack_not_overfull: "\<not> overfull t (takeBack w)"
  by (simp add: overfull_def takeBack_def updateGame_def list_ex_iff numberCount_def)

lemma retry_overfull:
  assumes "dealFor t (length (players (game w))) 0 w = Dealing w1"
    and "\<not> allPlayersHaveTargetCards t (game w1)"
  shows "overfull t w"
proof -
  note h = dealFor_players[OF assms(1)]
  from assms(2) obtain p where "p \<in> set (players (game w1))" "numberCount p \<noteq> t"
    by (auto simp: allPlayersHaveTargetCards_def list_all_iff)
  then obtain j where j: "j < length (players (game w1))" "numberCount (players (game w1) ! j) \<noteq> t"
    by (auto simp: in_set_conv_nth)
  then have "t < numberCount (players (game w) ! j)" using h by auto
  moreover have "j < length (players (game w))" using j h by simp
  ultimately show ?thesis by (auto simp: overfull_def list_ex_iff)
qed

function dealCards :: "nat \<Rightarrow> bool \<Rightarrow> World \<Rightarrow> Result" where
  "dealCards target requireExact w =
     (case dealFor target (length (players (game w))) 0 w of
        Stopped r \<Rightarrow> r
      | Dealing w1 \<Rightarrow>
          if requireExact \<and> \<not> allPlayersHaveTargetCards target (game w1) then
            (if waitingForSwap (game w1) then Returns w1
             else dealCards target requireExact (takeBack w1))
          else Returns (updateGame afterDealing w1))"
  by pat_completeness auto
termination
proof (relation "measure (\<lambda>(t, e, w). if overfull t w then 1 else 0)")
  fix target :: nat and requireExact :: bool and w w1 :: World
  assume "dealFor target (length (players (game w))) 0 w = Dealing w1"
    and "requireExact \<and> \<not> allPlayersHaveTargetCards target (game w1)"
  then have "overfull target w" by (auto intro: retry_overfull)
  then show "((target, requireExact, takeBack w1), (target, requireExact, w))
      \<in> measure (\<lambda>(t, e, w). if overfull t w then 1 else 0)"
    by (simp add: takeBack_not_overfull)
qed simp


declare dealCards.simps [simp del]

section \<open>Phases and turns\<close>

definition endGame :: "World \<Rightarrow> World" where
  "endGame w = updateGame (\<lambda>g. (resolveEquationsAndDistributePot g)\<lparr>phase := Ended\<rparr>) w"

definition advanceGamePhase :: "World \<Rightarrow> Result" where
  "advanceGamePhase w =
     (if phase (game w) = Preflop then
        dealCards 2 True (updateGame (\<lambda>g. g\<lparr>phase := Dealing1\<rparr>) w)
      else if phase (game w) = Betting1 then
        dealCards 4 True (updateGame (\<lambda>g. g\<lparr>phase := Dealing2\<rparr>) w)
      else if phase (game w) = Betting2 then
        Returns (updateGame (\<lambda>g. firstUnfolded (g\<lparr>phase := Equation\<rparr>)) w)
      else if phase (game w) = Equation then Returns (endGame w)
      else Returns w)"

text \<open>
  The \<^verbatim>\<open>while\<close> loop of \<^verbatim>\<open>moveToNextPlayer\<close> steps to the next index, cyclically,
  until the player there is neither folded nor inactive. It visits every player in
  \<open>length ps\<close> steps, so with that much fuel \<open>None\<close> means that the loop never ends.
\<close>

definition inRound :: "Player \<Rightarrow> bool" where
  "inRound p = (\<not> isFolded p \<and> isActive p)"

fun nextTurn :: "Player list \<Rightarrow> nat \<Rightarrow> nat \<Rightarrow> nat option" where
  "nextTurn ps 0 i = None"
| "nextTurn ps (Suc fuel) i =
     (if isFolded (ps ! i) \<or> \<not> isActive (ps ! i) then nextTurn ps fuel ((i + 1) mod length ps)
      else Some i)"

definition allBetsMatched :: "(Player \<Rightarrow> bool) \<Rightarrow> GameState \<Rightarrow> bool" where
  "allBetsMatched P g = list_all (\<lambda>p. bet p = currentBet g) (filter P (players g))"

definition moveToNextPlayer :: "World \<Rightarrow> Result" where
  "moveToNextPlayer w =
     (let ps = players (game w) in
      case findIndex (\<lambda>p. playerId p = currentPlayer (game w)) ps of
        None \<Rightarrow> Returns w
      | Some cur \<Rightarrow>
          (case nextTurn ps (length ps) ((cur + 1) mod length ps) of
             None \<Rightarrow> Hangs
           | Some nxt \<Rightarrow>
               if nxt \<le> cur \<and> allBetsMatched inRound (game w) \<and>
                  (phase (game w) = Preflop \<or> phase (game w) = Betting1 \<or>
                   phase (game w) = Betting2)
               then advanceGamePhase w
               else Returns (updateGame (\<lambda>g. g\<lparr>currentPlayer := playerId (ps ! nxt)\<rparr>) w)))"

text \<open>
  The last player standing: both winner lists name the player, the pot is added to the
  player's chips and the phase is \<open>Ended\<close> (the pot itself is left as it is).
\<close>

definition awardPot :: "nat \<Rightarrow> World \<Rightarrow> World" where
  "awardPot k w =
     updateGame (\<lambda>g. g\<lparr>phase := Ended\<rparr>)
       (updatePlayer k (\<lambda>p. p\<lparr>chips := chips p + pot (game w)\<rparr>)
          (updateGame (\<lambda>g. g\<lparr>winnersSmall := [playerId (players g ! k)],
                             winnersBig := [playerId (players g ! k)]\<rparr>) w))"

definition indicesWhere :: "('a \<Rightarrow> bool) \<Rightarrow> 'a list \<Rightarrow> nat list" where
  "indicesWhere P xs = filter (\<lambda>k. P (xs ! k)) [0..<length xs]"

definition eliminate :: "Player \<Rightarrow> Player" where
  "eliminate p = p\<lparr>isFolded := True, isActive := False\<rparr>"

definition checkPlayerElimination :: "nat \<Rightarrow> World \<Rightarrow> World" where
  "checkPlayerElimination i w =
     (if chips (players (game w) ! i) \<le> 0 then
        (let w1 = updatePlayer i eliminate w;
             activePlayers = indicesWhere inRound (players (game w1))
         in if length activePlayers \<le> 1 \<and> activePlayers \<noteq> [] then awardPot (hd activePlayers) w1
            else w1)
      else w)"

section \<open>Actions\<close>

text \<open>
  The player of a handler is an object of \<^verbatim>\<open>game.players\<close>: the index \<open>i\<close>.
  \<^verbatim>\<open>Math.min(...[])\<close> is \<^verbatim>\<open>Infinity\<close> (\<open>None\<close>). A bot's turn (\<^verbatim>\<open>handleBotTurn\<close>) waits
  for a timer before it touches the game, so it is no part of the action that starts it.
\<close>

definition lowestChips :: "GameState \<Rightarrow> int option" where
  "lowestChips g =
     (let cs = map chips (filter (\<lambda>p. \<not> isFolded p) (players g))
      in if cs = [] then None else Some (foldl min (hd cs) (tl cs)))"

definition placeBet :: "nat \<Rightarrow> int \<Rightarrow> World \<Rightarrow> World" where
  "placeBet i a w =
     updateGame (\<lambda>g. g\<lparr>pot := pot g + a\<rparr>)
       (updatePlayer i (\<lambda>p. p\<lparr>chips := chips p - a, bet := bet p + a\<rparr>) w)"

definition handleBet :: "nat \<Rightarrow> int \<Rightarrow> World \<Rightarrow> Result" where
  "handleBet i a w =
     (if a \<le> currentBet (game w) then Throws BetTooLow w
      else if chips (players (game w) ! i) < a then Throws NotEnoughChips w
      else if (case lowestChips (game w) of None \<Rightarrow> False | Some m \<Rightarrow> m < a) then
        Throws AboveLowestChips w
      else moveToNextPlayer
             (checkPlayerElimination i
                (updateGame (\<lambda>g. g\<lparr>currentBet := a\<rparr>) (placeBet i a w))))"

definition isSinglePlayerMode :: "GameState \<Rightarrow> bool" where
  "isSinglePlayerMode g =
     (length (players g) = 2 \<and> list_ex (\<lambda>p. isBot (playerId p)) (players g) \<and>
      list_ex (\<lambda>p. \<not> isBot (playerId p)) (players g))"

definition handleCall :: "nat \<Rightarrow> World \<Rightarrow> Result" where
  "handleCall i w =
     (let p = players (game w) ! i; callAmount = currentBet (game w) - bet p in
      if chips p < callAmount then Throws NotEnoughChips w
      else
        (let w1 = checkPlayerElimination i (placeBet i callAmount w) in
         if isSinglePlayerMode (game w1) \<and> \<not> isBot (playerId p) \<and> 0 < callAmount \<and>
            phase (game w1) = Betting1
         then advanceGamePhase w1
         else moveToNextPlayer w1))"

definition handleFold :: "nat \<Rightarrow> World \<Rightarrow> Result" where
  "handleFold i w =
     (let w1 = updatePlayer i (\<lambda>p. p\<lparr>isFolded := True\<rparr>) w;
          activePlayers = indicesWhere (\<lambda>p. \<not> isFolded p) (players (game w1))
      in if length activePlayers \<le> 1 \<and> activePlayers \<noteq> [] then
           Returns (awardPot (hd activePlayers) w1)
         else moveToNextPlayer w1)"

definition handleBetType :: "nat \<Rightarrow> BetType \<Rightarrow> World \<Rightarrow> Result" where
  "handleBetType i t w =
     (if phase (game w) \<noteq> Equation then Throws EquationPhaseOnly w
      else Returns (updatePlayer i (\<lambda>p. p\<lparr>betType := Some t\<rparr>) w))"

definition continueDealing :: "World \<Rightarrow> Result" where
  "continueDealing w =
     (if phase (game w) = Dealing1 then dealCards 2 True w
      else if phase (game w) = Dealing2 then dealCards 4 True w
      else Returns w)"

definition handleSwap :: "nat \<Rightarrow> OperationType \<Rightarrow> World \<Rightarrow> Result" where
  "handleSwap i t w =
     (case findIndex (\<lambda>c. c = t) (operationCards (players (game w) ! i)) of
        None \<Rightarrow> Throws CardNotFound w
      | Some k \<Rightarrow>
          continueDealing
            (updatePlayer i
               (\<lambda>p. (receive (OperationCard Multiply)
                        (p\<lparr>operationCards := removeAt k (operationCards p)\<rparr>))
                     \<lparr>hasMultiply := False\<rparr>) w))"

definition hasSubmitted :: "Player \<Rightarrow> bool" where
  "hasSubmitted p =
     (case betType p of
        Some Both \<Rightarrow> truthy (submitted small p) \<and> truthy (submitted big p)
      | Some Small \<Rightarrow> truthy (submitted small p)
      | Some Big \<Rightarrow> truthy (submitted big p)
      | _ \<Rightarrow> False)"

definition submitEquation :: "nat \<Rightarrow> Equations option \<Rightarrow> World \<Rightarrow> Result" where
  "submitEquation i eqs w =
     (let t = betType (players (game w) ! i) in
      if phase (game w) \<noteq> Equation then Throws EquationPhaseOnly w
      else if eqs = None then Throws EquationsRequired w
      else if t = Some Both \<and> (\<not> truthy (small (the eqs)) \<or> \<not> truthy (big (the eqs))) then
        Throws BothEquationsRequired w
      else if t = Some Small \<and> \<not> truthy (small (the eqs)) then Throws SmallEquationRequired w
      else if t = Some Big \<and> \<not> truthy (big (the eqs)) then Throws BigEquationRequired w
      else if t \<noteq> Some Both \<and> t \<noteq> Some Small \<and> t \<noteq> Some Big then Throws BetTypeNotSelected w
      else
        (let w1 = updatePlayer i (\<lambda>p. p\<lparr>submittedEquations := eqs\<rparr>) w in
         if list_all (\<lambda>p. isFolded p \<or> \<not> isActive p \<or> hasSubmitted p) (players (game w1))
         then advanceGamePhase (updateGame resolveEquationsAndDistributePot w1)
         else Returns w1))"

definition afterNoSwap :: "GameState \<Rightarrow> GameState" where
  "afterNoSwap g =
     (if phase g = Dealing1 \<and> list_all (\<lambda>p. 2 \<le> numberCount p) (players g) then
        g\<lparr>phase := Betting1\<rparr>
      else if phase g = Dealing2 \<and> list_all (\<lambda>p. 4 \<le> numberCount p) (players g) then
        openBetting2 g
      else g)"

definition noSwap :: "nat \<Rightarrow> World \<Rightarrow> Result" where
  "noSwap i w =
     andThen (continueDealing (updatePlayer i (\<lambda>p. p\<lparr>hasMultiply := False\<rparr>) w))
       (\<lambda>w1. Returns (updateGame afterNoSwap w1))"

definition bettingAction :: "ActionType \<Rightarrow> bool" where
  "bettingAction t = (t = Bet \<or> t = Call \<or> t = Fold \<or> t = Continue)"

definition isBettingPhase :: "GameState \<Rightarrow> bool" where
  "isBettingPhase g = (phase g = Betting1 \<or> phase g = Betting2 \<or> phase g = Preflop)"

definition isDealingPhase :: "GameState \<Rightarrow> bool" where
  "isDealingPhase g =
     (phase g = Dealing1 \<or> phase g = Dealing2 \<or> list_ex hasMultiply (players g))"

text \<open>
  \<^verbatim>\<open>performAction\<close>, for the game found under \<^verbatim>\<open>gameId\<close>: the checks before the
  \<^verbatim>\<open>switch\<close>, then the \<^verbatim>\<open>switch\<close>. An action type the \<^verbatim>\<open>switch\<close> has no case for
  (\<^verbatim>\<open>raise\<close>) is the \<^verbatim>\<open>default\<close> case.
\<close>

definition dispatch :: "nat \<Rightarrow> GameAction \<Rightarrow> World \<Rightarrow> Result" where
  "dispatch i a w =
     (case actionType a of
        Continue \<Rightarrow>
          if \<not> allBetsMatched (\<lambda>p. \<not> isFolded p) (game w) then Throws BetsNotMatched w
          else advanceGamePhase w
      | Bet \<Rightarrow> (case amount a of None \<Rightarrow> Throws AmountRequired w | Some n \<Rightarrow> handleBet i n w)
      | Call \<Rightarrow> handleCall i w
      | Fold \<Rightarrow> handleFold i w
      | SelectBetType \<Rightarrow>
          (case actionBetType a of
             None \<Rightarrow> Throws BetTypeRequired w
           | Some t \<Rightarrow> handleBetType i t w)
      | SubmitEquation \<Rightarrow> submitEquation i (equations a) w
      | SwapCard \<Rightarrow>
          (case swapCardType a of
             None \<Rightarrow> Throws SwapCardTypeRequired w
           | Some t \<Rightarrow> handleSwap i t w)
      | NoSwap \<Rightarrow> noSwap i w
      | Raise \<Rightarrow> Throws InvalidAction w)"

definition performAction :: "GameAction \<Rightarrow> World \<Rightarrow> Result" where
  "performAction a w =
     (case findIndex (\<lambda>p. playerId p = actionPlayerId a) (players (game w)) of
        None \<Rightarrow> Throws PlayerNotFound w
      | Some i \<Rightarrow>
          if playerId (players (game w) ! i) \<noteq> currentPlayer (game w) \<and>
             phase (game w) \<noteq> Equation \<and> actionType a \<noteq> SwapCard \<and>
             phase (game w) \<noteq> Dealing1 \<and> phase (game w) \<noteq> Dealing2
          then Throws NotYourTurn w
          else if \<not> isBettingPhase (game w) \<and> bettingAction (actionType a) then
            Throws BettingPhaseOnly w
          else if isDealingPhase (game w) \<and> bettingAction (actionType a) then
            Throws NotWhileDealing w
          else if phase (game w) \<noteq> Equation \<and> actionType a = SelectBetType then
            Throws EquationPhaseOnly w
          else dispatch i a w)"

subsection \<open>Joining and starting\<close>

text \<open>
  \<^verbatim>\<open>joinGame\<close> (the new player's identifier \<open>fresh\<close> is what \<^verbatim>\<open>uuidv4()\<close> returns) and
  \<^verbatim>\<open>startGame\<close>. With no player at all \<^verbatim>\<open>game.players[0].id\<close> throws after the deck
  and the phase have been written.
\<close>

definition newPlayer :: "string \<Rightarrow> string \<Rightarrow> int \<Rightarrow> Player" where
  "newPlayer pid nm c =
     \<lparr>playerId = pid, playerName = nm, chips = c, cards = [],
      operationCards = startingOperations, bet = 0, betType = None, isActive = True,
      isFolded = False, submittedEquations = None, isSquareRoot = False,
      hasMultiply = False\<rparr>"

definition spectator :: "string \<Rightarrow> string \<Rightarrow> Player" where
  "spectator pid nm =
     \<lparr>playerId = pid, playerName = nm @ '' (Spectator)'', chips = 0, cards = [],
      operationCards = [], bet = 0, betType = None, isActive = False,
      isFolded = True, submittedEquations = None, isSquareRoot = False,
      hasMultiply = False\<rparr>"

definition addPlayer :: "Player \<Rightarrow> World \<Rightarrow> World" where
  "addPlayer p w = updateGame (\<lambda>g. g\<lparr>players := players g @ [p]\<rparr>) w"

definition joinGame :: "string \<Rightarrow> string option \<Rightarrow> string \<Rightarrow> World \<Rightarrow> Result" where
  "joinGame nm pid fresh w =
     (case (if truthy pid
            then findIndex (\<lambda>p. playerId p = the pid \<and> playerName p = nm) (players (game w))
            else None) of
        Some k \<Rightarrow> Returns (updatePlayer k (\<lambda>p. p\<lparr>isActive := True\<rparr>) w)
      | None \<Rightarrow>
          if phase (game w) \<noteq> Waiting \<and> phase (game w) \<noteq> Ended then
            Returns (addPlayer (spectator fresh nm) w)
          else if phase (game w) \<noteq> Waiting then Throws GameAlreadyStarted w
          else Returns (addPlayer (newPlayer fresh nm 1000) w))"

definition resetPlayer :: "Player \<Rightarrow> Player" where
  "resetPlayer p =
     p\<lparr>cards := [], operationCards := startingOperations, bet := 0, betType := None,
       isActive := True, isFolded := False, submittedEquations := None,
       hasMultiply := False\<rparr>"

definition withBot :: "Player list \<Rightarrow> Player list" where
  "withBot ps =
     (if length ps = 1 then ps @ [newPlayer ''bot-1'' ''Bot Player'' (chips (ps ! 0))] else ps)"

definition startGame :: "World \<Rightarrow> Result" where
  "startGame w =
     (let ps = withBot (players (game w));
          w1 = (updateGame (\<lambda>g. g\<lparr>players := ps, deck := fst (createDeck (randoms w)),
                                   phase := Preflop\<rparr>) w)
                 \<lparr>randoms := snd (createDeck (randoms w))\<rparr>
      in if ps = [] then Throws TypeError w1
         else Returns
           (updateGame (\<lambda>g. g\<lparr>currentPlayer := playerId (hd ps), currentBet := 0, pot := 0,
                               winnersSmall := [], winnersBig := [], equationResults := None,
                               players := map resetPlayer ps\<rparr>) w1))"

text \<open>
  \<^verbatim>\<open>createGame\<close>: the identifier is drawn first, then the deck is built. \<open>decimal\<close> is
  \<^verbatim>\<open>toString()\<close> of a natural number.
\<close>

fun decimal :: "nat \<Rightarrow> string" where
  "decimal n =
     (if n < 10 then [char_of (48 + n)] else decimal (n div 10) @ [char_of (48 + n mod 10)])"

declare decimal.simps [simp del]

definition createGame :: "random \<Rightarrow> bool \<Rightarrow> World" where
  "createGame rnd io =
     \<lparr>game = \<lparr>gameId = decimal (floorRandom rnd 10000), players = [],
               deck = fst (createDeck (nextRandom rnd)), currentPlayer = [], pot = 0,
               currentBet = 0, phase = Waiting, round = 1, winnersSmall = [],
               winnersBig = [], equationResults = None\<rparr>,
      randoms = snd (createDeck (nextRandom rnd)), ioSet = io, requireSwap = []\<rparr>"

section \<open>What dealing leaves alone\<close>

text \<open>
  Relations between the world before and after a step, used in the proofs about bets and
  calls: \<open>sameTable\<close> keeps every player's identifier, chips and flags, the pot, the
  phase and the winner lists; \<open>dealtTable\<close> lets the phase go from a dealing phase to
  the betting phase that follows it.
\<close>

definition core :: "Player \<Rightarrow> string \<times> int \<times> bool \<times> bool" where
  "core p = (playerId p, chips p, isFolded p, isActive p)"

definition sameTable :: "World \<Rightarrow> World \<Rightarrow> bool" where
  "sameTable w w' =
     (map core (players (game w')) = map core (players (game w))
      \<and> pot (game w') = pot (game w) \<and> phase (game w') = phase (game w)
      \<and> winnersSmall (game w') = winnersSmall (game w)
      \<and> winnersBig (game w') = winnersBig (game w))"

fun resultWorld :: "Result \<Rightarrow> World option" where
  "resultWorld (Returns w) = Some w"
| "resultWorld (Throws e w) = Some w"
| "resultWorld Hangs = None"

fun dealtWorld :: "Dealt \<Rightarrow> World option" where
  "dealtWorld (Dealing w) = Some w"
| "dealtWorld (Stopped r) = resultWorld r"

definition dealtTable :: "World \<Rightarrow> World \<Rightarrow> bool" where
  "dealtTable w w' =
     (map core (players (game w')) = map core (players (game w))
      \<and> pot (game w') = pot (game w)
      \<and> winnersSmall (game w') = winnersSmall (game w)
      \<and> winnersBig (game w') = winnersBig (game w)
      \<and> (phase (game w') = phase (game w)
         \<or> phase (game w) = Dealing1 \<and> phase (game w') = Betting1
         \<or> phase (game w) = Dealing2 \<and> phase (game w') = Betting2))"

section \<open>Winners, forfeiting players and payouts\<close>

text \<open>
  The values \<^verbatim>\<open>resolveEquationsAndDistributePot\<close> computes on the way, as functions of
  the game, and what a player is paid.
\<close>

definition smallWinnerOf :: "GameState \<Rightarrow> nat option" where
  "smallWinnerOf g = smallWinner (players g) (closest entrySmall 1 (results (players g)))"

definition bigWinnerOf :: "GameState \<Rightarrow> nat option" where
  "bigWinnerOf g = bigWinner (players g) (closest entryBig 20 (results (players g)))"

definition losersOf :: "GameState \<Rightarrow> nat list" where
  "losersOf g =
     bothBetLosers (players g) (results (players g)) (smallWinnerOf g) (bigWinnerOf g)"

definition payout :: "GameState \<Rightarrow> nat \<Rightarrow> int" where
  "payout g j =
     chips (players (resolveEquationsAndDistributePot g) ! j) - chips (players g ! j)"

section \<open>Sample games\<close>

text \<open>
  Concrete players, games and actions. Ann and Bob sit at a table with 1000 chips each;
  \<open>zeros\<close> is the random source that always returns 0.
\<close>

definition zeros :: random where
  "zeros = (\<lambda>n. 0)"

definition sampleWorld :: "Player list \<Rightarrow> Card list \<Rightarrow> Phase \<Rightarrow> World" where
  "sampleWorld ps d ph =
     \<lparr>game = \<lparr>gameId = ''42'', players = ps, deck = d, currentPlayer = ''ann'', pot = 0,
               currentBet = 0, phase = ph, round = 1, winnersSmall = [], winnersBig = [],
               equationResults = None\<rparr>,
      randoms = zeros, ioSet = True, requireSwap = []\<rparr>"

definition ann :: Player where
  "ann = newPlayer ''ann'' ''Ann'' 1000"

definition bob :: Player where
  "bob = newPlayer ''bob'' ''Bob'' 1000"

definition table :: World where
  "table = sampleWorld [ann, bob] [] Preflop"


definition busted :: World where
  "busted = sampleWorld [ann\<lparr>chips := 0, bet := 1000, isFolded := True, isActive := False\<rparr>,
                         bob\<lparr>chips := 2000\<rparr>] [] Ended"

definition act :: "ActionType \<Rightarrow> string \<Rightarrow> GameAction" where
  "act t pid = \<lparr>actionType = t, actionPlayerId = pid, amount = None, actionBetType = None,
     equations = None, swapCardType = None\<rparr>"

definition betting :: "string \<Rightarrow> int \<Rightarrow> GameAction" where
  "betting pid n = (act Bet pid)\<lparr>amount := Some n\<rparr>"

definition swapping :: "string \<Rightarrow> OperationType \<Rightarrow> GameAction" where
  "swapping pid t = (act SwapCard pid)\<lparr>swapCardType := Some t\<rparr>"

text \<open>What is read off a result.\<close>

definition observe :: "(World \<Rightarrow> 'a) \<Rightarrow> Result \<Rightarrow> 'a option" where
  "observe f r = (case r of Returns w \<Rightarrow> Some (f w) | Throws e w \<Rightarrow> None | Hangs \<Rightarrow> None)"

definition bets :: "World \<Rightarrow> int list" where
  "bets w = map bet (players (game w))"

definition stacks :: "World \<Rightarrow> int list" where
  "stacks w = map chips (players (game w))"

definition activeFlags :: "World \<Rightarrow> bool list" where
  "activeFlags w = map isActive (players (game w))"


definition turn :: "World \<Rightarrow> string" where
  "turn w = currentPlayer (game w)"

definition hands :: "World \<Rightarrow> (Card list \<times> OperationType list) list" where
  "hands w = map (\<lambda>p. (cards p, operationCards p)) (players (game w))"

definition pendingFlags :: "World \<Rightarrow> bool list" where
  "pendingFlags w = map hasMultiply (players (game w))"

definition phaseOf :: "World \<Rightarrow> Phase" where
  "phaseOf w = phase (game w)"

definition potOf :: "World \<Rightarrow> int" where
  "potOf w = pot (game w)"

definition currentBetOf :: "World \<Rightarrow> int" where
  "currentBetOf w = currentBet (game w)"

text \<open>
  Games played from the start: two players join and the game is started; then three
  bets, a call by Bob and a call by Ann; or one all-in bet.
\<close>

definition lobby :: World where
  "lobby = createGame zeros True"

definition seated :: Result where
  "seated = andThen (joinGame ''Ann'' None ''ann'' lobby) (joinGame ''Bob'' None ''bob'')"

definition started :: Result where
  "started = andThen seated startGame"

definition raised :: Result where
  "raised = andThen (andThen (andThen started (performAction (betting ''ann'' 10)))
     (performAction (betting ''bob'' 20))) (performAction (betting ''ann'' 30))"

definition called :: Result where
  "called = andThen raised (performAction (act Call ''bob''))"

definition calledBack :: Result where
  "calledBack = andThen called (performAction (act Call ''ann''))"

definition eliminated :: Result where
  "eliminated = andThen started (performAction (betting ''ann'' 1000))"

text \<open>
  Games at the end of the equation phase, with a pot of 100 and 950 chips each.
\<close>

definition contestant ::
  "Player \<Rightarrow> Card list \<Rightarrow> BetType \<Rightarrow> string option \<Rightarrow> string option \<Rightarrow> Player" where
  "contestant p cs t s b =
     p\<lparr>chips := 950, cards := cs, betType := Some t,
       submittedEquations := Some \<lparr>small = s, big = b\<rparr>\<rparr>"

definition showdown :: "Player list \<Rightarrow> GameState" where
  "showdown ps = (game (sampleWorld ps [] Equation))\<lparr>pot := 100\<rparr>"

definition annCards :: "Card list" where
  "annCards = [NumberCard 0 Gold, NumberCard 5 Dark, NumberCard 6 Silver, NumberCard 7 Bronze]"

definition bobCards :: "Card list" where
  "bobCards = [NumberCard 1 Bronze, NumberCard 2 Silver, NumberCard 3 Gold, NumberCard 4 Gold]"

definition tieGame :: GameState where
  "tieGame = showdown [contestant ann annCards Small (Some ''7-6'') None,
                       contestant bob bobCards Small (Some ''3-2'') None]"

definition halfGame :: GameState where
  "halfGame = showdown [contestant ann annCards Small (Some ''7-6'') None,
                        contestant bob bobCards Big None (Some ''4/0'')]"

definition forfeitGame :: GameState where
  "forfeitGame = showdown [contestant ann annCards Both (Some ''7-6'') (Some ''5+6''),
                           contestant bob bobCards Both (Some ''3-1'') (Some ''4*4+3+1'')]"

definition forfeitToBob :: GameState where
  "forfeitToBob = showdown [contestant ann annCards Both (Some ''7-6'') (Some ''5+6''),
                            contestant bob bobCards Big None (Some ''4*4+3+1'')]"

definition cat :: Player where
  "cat = newPlayer ''cat'' ''Cat'' 1000"

definition catCards :: "Card list" where
  "catCards = [NumberCard 2 Dark, NumberCard 8 Bronze, NumberCard 9 Silver, NumberCard 10 Gold]"

definition outsiderGame :: GameState where
  "outsiderGame = showdown [contestant ann annCards Both (Some ''7-5'') (Some ''7/0''),
                            contestant bob bobCards Small (Some ''3-2'') None,
                            contestant cat catCards Big None (Some ''10+8+2'')]"

section \<open>Deck composition\<close>

lemma randomOk_next: "randomOk rnd \<Longrightarrow> randomOk (nextRandom rnd)"
  by (simp add: randomOk_def nextRandom_def)

lemma floorRandom_less:
  assumes "randomOk rnd" and "0 < n"
  shows "floorRandom rnd n < n"
proof -
  have r: "0 \<le> rnd 0" "rnd 0 < 1" using assms(1) by (simp_all add: randomOk_def)
  have "rnd 0 * real n < real n" using r assms(2) by simp
  then have "\<lfloor>rnd 0 * real n\<rfloor> < int n" by (simp add: floor_less_iff)
  moreover have "0 \<le> \<lfloor>rnd 0 * real n\<rfloor>" using r by simp
  ultimately show ?thesis unfolding floorRandom_def by linarith
qed

lemma mset_swapAt:
  "i < length xs \<Longrightarrow> j < length xs \<Longrightarrow> mset (swapAt xs i j) = mset xs"
  by (simp add: swapAt_def mset_swap)

lemma length_swapAt: "length (swapAt xs i j) = length xs"
  by (simp add: swapAt_def)

lemma shuffleFrom_mset:
  "randomOk rnd \<Longrightarrow> i < length xs \<Longrightarrow> mset (fst (shuffleFrom i rnd xs)) = mset xs"
proof (induction i arbitrary: rnd xs)
  case 0
  then show ?case by simp
next
  case (Suc i)
  have j: "floorRandom rnd (Suc i + 1) < Suc i + 1"
    using Suc.prems(1) by (intro floorRandom_less) simp_all
  then have jl: "floorRandom rnd (Suc i + 1) < length xs" using Suc.prems(2) by simp
  let ?d = "swapAt xs (Suc i) (floorRandom rnd (Suc i + 1))"
  have "mset (fst (shuffleFrom i (nextRandom rnd) ?d)) = mset ?d"
    using Suc.prems by (intro Suc.IH) (simp_all add: randomOk_next length_swapAt)
  also have "\<dots> = mset xs" using Suc.prems(2) jl by (simp add: mset_swapAt)
  finally show ?case by simp
qed

lemma count_numberCardsOf:
  "count_list (map (\<lambda>v. NumberCard v c) [0..<n]) (NumberCard w d) =
     (if d = c \<and> w < n then 1 else 0)"
  by (induction n) auto

lemma count_numberCardsOf_op:
  "count_list (map (\<lambda>v. NumberCard v c) [0..<n]) (OperationCard opn) = 0"
  by (induction n) auto

lemma count_list_unshuffledDeck: "count_list unshuffledDeck crd = deckCount crd"
proof (cases crd)
  case (NumberCard w d)
  then show ?thesis
    by (cases d)
       (simp_all add: unshuffledDeck_def colors_def numberCardsOf_def
          count_numberCardsOf numeral_eq_Suc del: upt_Suc)
next
  case (OperationCard opn)
  then show ?thesis
    by (cases opn)
       (simp_all add: unshuffledDeck_def colors_def numberCardsOf_def
          count_numberCardsOf_op numeral_eq_Suc del: upt_Suc)
qed

lemma count_unshuffledDeck: "count (mset unshuffledDeck) crd = deckCount crd"
  by (simp only: count_mset count_list_unshuffledDeck)

lemma length_unshuffledDeck: "length unshuffledDeck = 52"
  by (simp add: unshuffledDeck_def colors_def numberCardsOf_def numeral_eq_Suc)

text \<open>
  C7. Whatever the random numbers (each in \<open>[0, 1)\<close>), the deck that \<^verbatim>\<open>createDeck\<close>
  returns holds each number card of value 0 to 10 once per colour, four multiply and four
  square-root cards and nothing else, 52 cards in all; the shuffle keeps the multiset of
  the ordered deck.
\<close>

theorem createDeck_composition:
  assumes "randomOk rnd"
  shows "count (mset (fst (createDeck rnd))) crd = deckCount crd
       \<and> length (fst (createDeck rnd)) = 52
       \<and> mset (fst (createDeck rnd)) = mset unshuffledDeck"
proof -
  have m: "mset (fst (createDeck rnd)) = mset unshuffledDeck"
    unfolding createDeck_def using assms
    by (intro shuffleFrom_mset) (simp_all add: length_unshuffledDeck)
  have "length (fst (createDeck rnd)) = length unshuffledDeck"
    using m by (metis size_mset)
  then show ?thesis using m by (simp add: count_unshuffledDeck length_unshuffledDeck)
qed

theorem createDeck_composition_witness:
  "randomOk zeros \<and> count (mset (fst (createDeck zeros))) (NumberCard 7 Gold) = 1
   \<and> length (fst (createDeck zeros)) = 52"
  using createDeck_composition [of zeros "NumberCard 7 Gold"]
  by (simp add: randomOk_def zeros_def count_unshuffledDeck)

section \<open>The evaluator on the five expressions\<close>

lemmas safeEval_defs = safeEval_def parts_def trim_def isSpace_def isSeparator_def
  isDigits_def isDigit_def jsReturn_def jsLex.simps literalValue_def digitValue_def
  startReading_def closeTerm_def closeFactor_def jsSign_def Let_def

text \<open>
  C6. \<^verbatim>\<open>safeEval("2+3*4")\<close> is 14 (multiplication binds tighter; folding from the left
  would give 20), \<^verbatim>\<open>safeEval("sqrt4+5")\<close> is 7, and \<^verbatim>\<open>"5/0"\<close>, the empty string and
  \<^verbatim>\<open>"sqrt"\<close> with no operand each give \<^verbatim>\<open>null\<close>: a value, not an exception.
\<close>

theorem safeEval_examples:
  "safeEval ''2+3*4'' = Some 14 \<and> safeEval ''2+3*4'' \<noteq> Some 20
   \<and> safeEval ''sqrt4+5'' = Some 7
   \<and> safeEval ''5/0'' = None \<and> safeEval '''' = None \<and> safeEval ''sqrt'' = None"
proof -
  have a: "safeEval ''2+3*4'' = Some 14" by (simp add: safeEval_defs)
  have b: "safeEval ''sqrt4+5'' = Some 7" by (simp add: safeEval_defs)
  have c: "safeEval ''5/0'' = None" by (simp add: safeEval_defs)
  have d: "safeEval '''' = None" by (simp add: safeEval_defs)
  have e: "safeEval ''sqrt'' = None" by (simp add: safeEval_defs)
  show ?thesis by (simp add: a b c d e)
qed

section \<open>A multiply card drawn after a square root\<close>

text \<open>
  C10. When the card drawn for a player is a multiply card and the player's
  \<^verbatim>\<open>isSquareRoot\<close> flag is set, the loop body ends with \<^verbatim>\<open>continue\<close> and leaves the
  world as it is after the \<^verbatim>\<open>pop\<close>: the card is gone from the deck, no player (hand,
  \<^verbatim>\<open>hasMultiply\<close>) has changed, no \<^verbatim>\<open>requireSwap\<close> event is emitted, and dealing goes on
  with the next draw for the same player.
\<close>

theorem multiply_after_squareRoot_discarded:
  assumes "isSquareRoot (players (game w) ! i)"
    and "numberCount (players (game w) ! i) < target"
    and "deck (game w) \<noteq> []"
    and "last (deck (game w)) = OperationCard Multiply"
  shows "dealCard i (OperationCard Multiply) (pop w) = Dealing (pop w)
       \<and> dealWhile target i w = dealWhile target i (pop w)
       \<and> players (game (pop w)) = players (game w)
       \<and> requireSwap (pop w) = requireSwap w
       \<and> deck (game (pop w)) = butlast (deck (game w))"
proof -
  have p: "players (game (pop w)) = players (game w)" by simp
  have c: "dealCard i (OperationCard Multiply) (pop w) = Dealing (pop w)"
    using assms(1) by (simp add: dealCard_def Let_def)
  have "dealWhile target i w = dealWhile target i (pop w)"
    using assms c by (subst dealWhile.simps) simp
  then show ?thesis using c by (simp add: pop_def updateGame_def)
qed

theorem multiply_after_squareRoot_discarded_witness:
  "dealWhile 2 0
     (sampleWorld [ann\<lparr>cards := [OperationCard SquareRoot], isSquareRoot := True\<rparr>, bob]
        [NumberCard 3 Gold, OperationCard Multiply] Dealing1)
   = dealWhile 2 0
     (sampleWorld [ann\<lparr>cards := [OperationCard SquareRoot], isSquareRoot := True\<rparr>, bob]
        [NumberCard 3 Gold] Dealing1)"
  using multiply_after_squareRoot_discarded
    [of "sampleWorld [ann\<lparr>cards := [OperationCard SquareRoot], isSquareRoot := True\<rparr>, bob]
        [NumberCard 3 Gold, OperationCard Multiply] Dealing1" 0 2]
  by (simp add: sampleWorld_def ann_def newPlayer_def numberCount_def pop_def updateGame_def)

section \<open>Evaluating the model on sample games\<close>

lemmas run_defs = andThen_def joinGame_def startGame_def performAction_def dispatch_def
  handleBet_def handleCall_def handleFold_def moveToNextPlayer_def checkPlayerElimination_def
  eliminate_def
  placeBet_def lowestChips_def updatePlayer_def updateGame_def addPlayer_def newPlayer_def
  withBot_def resetPlayer_def findIndex_def truthy_def isBettingPhase_def isDealingPhase_def
  bettingAction_def allBetsMatched_def inRound_def indicesWhere_def awardPot_def
  startingOperations_def createGame_def act_def betting_def observe_def Let_def


lemmas resolve_defs = resolveEquationsAndDistributePot_def distribute_def results_def
  entryOf_def betsOn_def evaluated_def submitted_def truthy_def closest_def closer_def
  smallWinner_def bigWinner_def reduce_def mathMin_def mathMax_def colorRanks_def
  bothBetLosers_def lost_def isLoser_def credit_def paySmall_def payBig_def
  equationResult_def Let_def

lemmas sample_defs = showdown_def contestant_def sampleWorld_def ann_def bob_def cat_def
  annCards_def bobCards_def catCards_def newPlayer_def startingOperations_def

lemma ev1: "safeEval ''7-6'' = Some 1" by (simp add: safeEval_defs)
lemma ev2: "safeEval ''3-2'' = Some 1" by (simp add: safeEval_defs)
lemma ev3: "safeEval ''4/0'' = None" by (simp add: safeEval_defs)
lemma ev4: "safeEval ''5+6'' = Some 11" by (simp add: safeEval_defs)
lemma ev5: "safeEval ''3-1'' = Some 2" by (simp add: safeEval_defs)
lemma ev6: "safeEval ''4*4+3+1'' = Some 20" by (simp add: safeEval_defs)
lemma ev7: "safeEval ''7-5'' = Some 2" by (simp add: safeEval_defs)
lemma ev8: "safeEval ''7/0'' = None" by (simp add: safeEval_defs)
lemma ev9: "safeEval ''10+8+2'' = Some 20" by (simp add: safeEval_defs)


section \<open>Tie-break\<close>

text \<open>
  C1, evaluated. Ann and Bob both bet small and both reach 1. Ann's lowest card is the
  gold 0 and Bob's the bronze 1, so by the claim Bob wins small. The code compares the
  lowest colour rank among all of a player's number cards (Ann holds the dark 5) and
  makes Ann the winner.
\<close>

theorem tie_break_on_any_card:
  "closest entrySmall 1 (results (players tieGame)) = [0, 1]
   \<and> map cards (players tieGame) = [annCards, bobCards]
   \<and> smallWinnerOf tieGame = Some 0
   \<and> winnersSmall (resolveEquationsAndDistributePot tieGame) = [''ann'']
   \<and> map chips (players (resolveEquationsAndDistributePot tieGame)) = [1050, 950]"
proof -
  have t: "closest entrySmall 1 (results (players tieGame)) = [0, 1]"
    by (simp add: tieGame_def showdown_def contestant_def sampleWorld_def ann_def bob_def
        newPlayer_def resolve_defs ev1 ev2)
  have c: "map cards (players tieGame) = [annCards, bobCards]"
    by (simp add: tieGame_def showdown_def contestant_def sampleWorld_def)
  have w: "smallWinnerOf tieGame = Some 0"
    by (simp add: smallWinnerOf_def tieGame_def sample_defs resolve_defs ev1 ev2)
  have r: "winnersSmall (resolveEquationsAndDistributePot tieGame) = [''ann'']
     \<and> map chips (players (resolveEquationsAndDistributePot tieGame)) = [1050, 950]"
    by (simp add: tieGame_def sample_defs resolve_defs ev1 ev2)
  show ?thesis using t c w r by simp
qed

section \<open>Pot conservation\<close>

text \<open>
  C3, evaluated. Ann bets small and reaches 1; Bob bets big and his equation divides by
  zero. The pot is 100; Ann is paid 50, nobody is paid the rest, and the pot is set to 0.
\<close>

theorem half_pot_lost:
  "pot halfGame = 100
   \<and> map chips (players halfGame) = [950, 950]
   \<and> map chips (players (resolveEquationsAndDistributePot halfGame)) = [1000, 950]
   \<and> pot (resolveEquationsAndDistributePot halfGame) = 0"
  by (simp add: halfGame_def sample_defs resolve_defs ev1 ev3)

section \<open>Turn legality\<close>

text \<open>
  C5, evaluated. In the preflop betting phase it is Ann's turn and nobody has a pending
  multiply card. Bob's \<^verbatim>\<open>swapCard\<close> is accepted all the same: he loses his add card and
  gains a multiply card.
\<close>

theorem swap_without_interrupt:
  "observe phaseOf started = Some Preflop
   \<and> observe turn started = Some ''ann''
   \<and> observe pendingFlags started = Some [False, False]
   \<and> observe hands started = Some [([], [Add, Subtract, Divide]), ([], [Add, Subtract, Divide])]
   \<and> observe hands (andThen started (performAction (swapping ''bob'' Add)))
       = Some [([], [Add, Subtract, Divide]), ([OperationCard Multiply], [Subtract, Divide])]"
  by (simp add: started_def seated_def lobby_def run_defs hands_def turn_def swapping_def
      handleSwap_def continueDealing_def receive_def removeAt_def pendingFlags_def phaseOf_def)

section \<open>Restarting\<close>

text \<open>
  C9, as stated, fails: \<^verbatim>\<open>startGame\<close> sets \<^verbatim>\<open>isActive = true\<close> for every player. Ann
  goes all in with her first bet and is eliminated (inactive); after the restart she is
  active again.
\<close>

theorem restart_reactivates_cex:
  "observe activeFlags eliminated = Some [False, True]
   \<and> observe activeFlags (andThen eliminated startGame) = Some [True, True]"
  by (simp add: eliminated_def started_def seated_def lobby_def run_defs activeFlags_def)

lemma withBot_nth: "i < length ps \<Longrightarrow> withBot ps ! i = ps ! i"
  by (simp add: withBot_def nth_append)

lemma withBot_length: "length ps \<le> length (withBot ps)"
  by (simp add: withBot_def)

text \<open>
  C9, amended. A restart that returns leaves the identifier and the chips of every
  player as they were, sets the bet to 0, clears the folded flag, the hand, the submitted
  equations and the bet type, gives back the three starting operators, and marks the
  player active.
\<close>

theorem startGame_resets:
  assumes "startGame w = Returns w'" and "i < length (players (game w))"
  shows "playerId (players (game w') ! i) = playerId (players (game w) ! i)
       \<and> chips (players (game w') ! i) = chips (players (game w) ! i)
       \<and> bet (players (game w') ! i) = 0
       \<and> \<not> isFolded (players (game w') ! i)
       \<and> isActive (players (game w') ! i)
       \<and> cards (players (game w') ! i) = []
       \<and> operationCards (players (game w') ! i) = [Add, Subtract, Divide]
       \<and> submittedEquations (players (game w') ! i) = None
       \<and> betType (players (game w') ! i) = None"
proof -
  let ?ps = "withBot (players (game w))"
  have ne: "?ps \<noteq> []" using assms(1) by (auto simp: startGame_def Let_def split: if_splits)
  have "players (game w') = map resetPlayer ?ps"
    using assms(1) ne by (auto simp: startGame_def Let_def updateGame_def)
  moreover have "i < length ?ps" using assms(2) withBot_length[of "players (game w)"] by simp
  ultimately have "players (game w') ! i = resetPlayer (players (game w) ! i)"
    using assms(2) by (simp add: withBot_nth)
  then show ?thesis by (simp add: resetPlayer_def startingOperations_def)
qed

theorem startGame_resets_witness:
  "\<exists>w'. startGame busted = Returns w' \<and> 0 < length (players (game busted))
        \<and> chips (players (game w') ! 0) = 0 \<and> bet (players (game w') ! 0) = 0
        \<and> \<not> isFolded (players (game w') ! 0) \<and> isActive (players (game w') ! 0)"
proof -
  obtain w' where r: "startGame busted = Returns w'"
    by (simp add: startGame_def busted_def sampleWorld_def withBot_def Let_def)
  have l: "0 < length (players (game busted))" by (simp add: busted_def sampleWorld_def)
  from startGame_resets [OF r l] r l show ?thesis
    by (auto simp: busted_def sampleWorld_def)
qed

section \<open>The bet-both rule\<close>

text \<open>
  C2, evaluated. Ann and Bob both bet both; Ann wins small and loses big, Bob wins big and
  loses small. By the claim Bob takes the pot of 100 and Ann gets nothing. The code finds
  both winners among the forfeiting players, pays nobody, and sets the pot to 0: the 100
  chips are gone. In the second game Ann bets both and loses small to Bob, who bet small;
  her big equation has no value, and Cat, who bet big, wins big. By the claim the winner
  of the other target, Cat, takes the pot. The code pays the pot to the small-winner Bob
  and nothing to Cat.
\<close>

theorem both_winners_forfeit_pot_lost:
  "pot forfeitGame = 100
   \<and> map betType (players forfeitGame) = [Some Both, Some Both]
   \<and> smallWinnerOf forfeitGame = Some 0 \<and> bigWinnerOf forfeitGame = Some 1
   \<and> losersOf forfeitGame = [0, 1]
   \<and> map chips (players forfeitGame) = [950, 950]
   \<and> map chips (players (resolveEquationsAndDistributePot forfeitGame)) = [950, 950]
   \<and> pot (resolveEquationsAndDistributePot forfeitGame) = 0
   \<and> pot outsiderGame = 100
   \<and> map betType (players outsiderGame) = [Some Both, Some Small, Some Big]
   \<and> smallWinnerOf outsiderGame = Some 1 \<and> bigWinnerOf outsiderGame = Some 2
   \<and> losersOf outsiderGame = [0]
   \<and> map chips (players outsiderGame) = [950, 950, 950]
   \<and> map chips (players (resolveEquationsAndDistributePot outsiderGame)) = [950, 1050, 950]"
proof -
  have a: "pot forfeitGame = 100
     \<and> map betType (players forfeitGame) = [Some Both, Some Both]
     \<and> map chips (players forfeitGame) = [950, 950]"
    by (simp add: forfeitGame_def sample_defs)
  have b: "smallWinnerOf forfeitGame = Some 0 \<and> bigWinnerOf forfeitGame = Some 1
     \<and> losersOf forfeitGame = [0, 1]"
    by (simp add: forfeitGame_def smallWinnerOf_def bigWinnerOf_def losersOf_def sample_defs
        resolve_defs ev1 ev4 ev5 ev6)
  have c: "map chips (players (resolveEquationsAndDistributePot forfeitGame)) = [950, 950]
     \<and> pot (resolveEquationsAndDistributePot forfeitGame) = 0"
    by (simp add: forfeitGame_def sample_defs resolve_defs ev1 ev4 ev5 ev6)
  have d: "pot outsiderGame = 100
     \<and> map betType (players outsiderGame) = [Some Both, Some Small, Some Big]
     \<and> map chips (players outsiderGame) = [950, 950, 950]"
    by (simp add: outsiderGame_def sample_defs)
  have e: "smallWinnerOf outsiderGame = Some 1 \<and> bigWinnerOf outsiderGame = Some 2
     \<and> losersOf outsiderGame = [0]"
    by (simp add: outsiderGame_def smallWinnerOf_def bigWinnerOf_def losersOf_def sample_defs
        resolve_defs ev2 ev7 ev8 ev9)
  have f: "map chips (players (resolveEquationsAndDistributePot outsiderGame))
      = [950, 1050, 950]"
    by (simp add: outsiderGame_def sample_defs resolve_defs ev2 ev7 ev8 ev9)
  show ?thesis using a b c d e f by simp
qed

text \<open>
  What the rule does guarantee, for every game, is proved next.
\<close>

lemma closer_subset:
  "set (snd (closer val goal acc r)) \<subseteq> insert (entryPlayer r) (set (snd acc))"
  by (auto simp: closer_def split: option.splits if_splits)

lemma foldl_closer_subset:
  "set (snd (foldl (closer val goal) acc rs)) \<subseteq> set (snd acc) \<union> entryPlayer ` set rs"
proof (induction rs arbitrary: acc)
  case Nil
  then show ?case by simp
next
  case (Cons r rs)
  from Cons.IH[of "closer val goal acc r"] closer_subset[of val goal acc r]
  show ?case by auto
qed

lemma closest_subset: "set (closest val goal rs) \<subseteq> entryPlayer ` set rs"
  using foldl_closer_subset[of val goal "(None, [])" rs] by (simp add: closest_def)

lemma foldl_choice:
  "(\<And>a b. f a b = a \<or> f a b = b) \<Longrightarrow> foldl f a xs \<in> insert a (set xs)"
proof (induction xs arbitrary: a)
  case Nil
  then show ?case by simp
next
  case (Cons x xs)
  from Cons.IH[of "f a x"] Cons.prems show ?case by (metis foldl_Cons insert_iff list.simps(15))
qed

lemma reduce_mem:
  assumes "reduce f xs = Some x" and "\<And>a b. f a b = a \<or> f a b = b"
  shows "x \<in> set xs"
proof -
  from assms(1) have ne: "xs \<noteq> []" and x: "x = foldl f (hd xs) (tl xs)"
    by (auto simp: reduce_def split: if_splits)
  from foldl_choice[of f "hd xs" "tl xs"] assms(2) have "x \<in> insert (hd xs) (set (tl xs))"
    using x by blast
  then show ?thesis using ne by (cases xs) auto
qed

lemma results_index: "r \<in> set (results ps) \<Longrightarrow> entryPlayer r < length ps"
  by (auto simp: results_def entryOf_def)

lemma smallWinnerOf_index: "smallWinnerOf g = Some s \<Longrightarrow> s < length (players g)"
proof -
  assume "smallWinnerOf g = Some s"
  then have "s \<in> set (closest entrySmall 1 (results (players g)))"
    unfolding smallWinnerOf_def smallWinner_def by (rule reduce_mem) simp
  then show ?thesis using closest_subset results_index by fastforce
qed

lemma bigWinnerOf_index: "bigWinnerOf g = Some b \<Longrightarrow> b < length (players g)"
proof -
  assume "bigWinnerOf g = Some b"
  then have "b \<in> set (closest entryBig 20 (results (players g)))"
    unfolding bigWinnerOf_def bigWinner_def by (rule reduce_mem) simp
  then show ?thesis using closest_subset results_index by fastforce
qed

lemma resolve_distribute:
  "resolveEquationsAndDistributePot g =
     (distribute
        (list_all (\<lambda>r. betType (players g ! entryPlayer r) = Some Small) (results (players g)))
        (list_all (\<lambda>r. betType (players g ! entryPlayer r) = Some Big) (results (players g)))
        (smallWinnerOf g) (bigWinnerOf g) (losersOf g)
        (g\<lparr>equationResults := Some (map (equationResult (players g)) (results (players g)))\<rparr>))
     \<lparr>pot := 0\<rparr>"
  by (simp add: resolveEquationsAndDistributePot_def smallWinnerOf_def bigWinnerOf_def
      losersOf_def Let_def)

lemma loser_facts:
  assumes "L \<in> set (losersOf g)"
  shows "\<not> list_all (\<lambda>r. betType (players g ! entryPlayer r) = Some Small) (results (players g))"
    and "\<not> list_all (\<lambda>r. betType (players g ! entryPlayer r) = Some Big) (results (players g))"
    and "losersOf g \<noteq> []"
    and "isLoser (players g) (losersOf g) L"
    and "\<not> isLoser (players g) (losersOf g) k \<Longrightarrow> k \<noteq> L"
    and "smallWinnerOf g = Some s \<Longrightarrow> bigWinnerOf g = Some b \<Longrightarrow>
         playerId (players g ! s) = playerId (players g ! b) \<Longrightarrow> s \<noteq> L"
proof -
  from assms obtain r where r: "r \<in> set (results (players g))" "entryPlayer r = L"
      "betType (players g ! L) = Some Both"
      "lost (players g) (entrySmall r) (smallWinnerOf g) L \<or>
       lost (players g) (entryBig r) (bigWinnerOf g) L"
    by (auto simp: losersOf_def bothBetLosers_def)
  have both: "betType (players g ! entryPlayer r) = Some Both" using r(2,3) by simp
  show "\<not> list_all (\<lambda>r. betType (players g ! entryPlayer r) = Some Small) (results (players g))"
    using r(1) both by (force simp: list_all_iff)
  show "\<not> list_all (\<lambda>r. betType (players g ! entryPlayer r) = Some Big) (results (players g))"
    using r(1) both by (force simp: list_all_iff)
  show "losersOf g \<noteq> []" using assms by auto
  show l: "isLoser (players g) (losersOf g) L"
    using assms by (auto simp: isLoser_def list_ex_iff)
  show "\<not> isLoser (players g) (losersOf g) k \<Longrightarrow> k \<noteq> L" using l by auto
  show "smallWinnerOf g = Some s \<Longrightarrow> bigWinnerOf g = Some b \<Longrightarrow>
         playerId (players g ! s) = playerId (players g ! b) \<Longrightarrow> s \<noteq> L"
    using r(4) by (auto simp: lost_def)
qed

text \<open>Who forfeits, in terms of the player.\<close>

lemma losersOf_iff:
  "L \<in> set (losersOf g) \<longleftrightarrow>
     L < length (players g) \<and> \<not> isFolded (players g ! L)
     \<and> betType (players g ! L) = Some Both
     \<and> (lost (players g) (evaluated (submitted small (players g ! L))) (smallWinnerOf g) L
        \<or> lost (players g) (evaluated (submitted big (players g ! L))) (bigWinnerOf g) L)"
  (is "?l \<longleftrightarrow> ?r")
proof
  assume ?l
  then show ?r
    by (auto simp: losersOf_def bothBetLosers_def results_def entryOf_def betsOn_def)
next
  assume r: ?r
  let ?e = "entryOf (players g) L"
  have "?e \<in> set (results (players g))" using r by (auto simp: results_def)
  moreover have "entryPlayer ?e = L" by (simp add: entryOf_def)
  moreover have "betType (players g ! entryPlayer ?e) = Some Both
      \<and> (lost (players g) (entrySmall ?e) (smallWinnerOf g) (entryPlayer ?e)
         \<or> lost (players g) (entryBig ?e) (bigWinnerOf g) (entryPlayer ?e))"
    using r by (simp add: entryOf_def betsOn_def)
  ultimately show ?l unfolding losersOf_def bothBetLosers_def by force
qed

text \<open>
  Let \<open>L\<close> be a forfeiting player: one who bet both, has a value for a target and is not
  that target's winner. Then \<open>L\<close> is paid nothing and the pot is set to 0. If the
  small-winner is not a forfeiting player it is paid the entire pot and nobody else is
  paid; otherwise, if the big-winner is not a forfeiting player, it is paid the entire
  pot and nobody else is paid. In every other case nobody is paid.
\<close>

lemma forfeiting_player_unpaid:
  assumes "L \<in> set (losersOf g)"
  shows "payout g L = 0
       \<and> pot (resolveEquationsAndDistributePot g) = 0
       \<and> (\<forall>s. smallWinnerOf g = Some s \<and> \<not> isLoser (players g) (losersOf g) s \<longrightarrow>
              payout g s = pot g \<and> (\<forall>j. j \<noteq> s \<longrightarrow> payout g j = 0))
       \<and> (\<forall>b. bigWinnerOf g = Some b \<and> \<not> isLoser (players g) (losersOf g) b \<and>
              (\<forall>s. smallWinnerOf g = Some s \<longrightarrow> isLoser (players g) (losersOf g) s) \<longrightarrow>
              payout g b = pot g \<and> (\<forall>j. j \<noteq> b \<longrightarrow> payout g j = 0))"
proof -
  note f = loser_facts[OF assms]
  note d = resolve_distribute distribute_def paySmall_def payBig_def credit_def payout_def Let_def
  have a: "payout g L = 0"
  proof (cases "smallWinnerOf g")
    case None
    then show ?thesis using f(1-4) f(5)[of "the (bigWinnerOf g)"]
      by (cases "bigWinnerOf g") (auto simp: d)
  next
    case (Some s)
    show ?thesis
    proof (cases "bigWinnerOf g")
      case None
      then show ?thesis using Some f(1-4) f(5)[of s] by (auto simp: d)
    next
      case (Some b)
      with \<open>smallWinnerOf g = Some s\<close> f(6)[of s b] f(5)[of s] f(5)[of b] f(1-4) show ?thesis
        by (auto simp: d)
    qed
  qed
  have b: "pot (resolveEquationsAndDistributePot g) = 0" by (simp add: resolve_distribute)
  have c: "payout g s = pot g \<and> (\<forall>j. j \<noteq> s \<longrightarrow> payout g j = 0)"
    if "smallWinnerOf g = Some s" "\<not> isLoser (players g) (losersOf g) s" for s
    using that f(1-3) smallWinnerOf_index[OF that(1)] by (auto simp: d)
  have e: "payout g b = pot g \<and> (\<forall>j. j \<noteq> b \<longrightarrow> payout g j = 0)"
    if "bigWinnerOf g = Some b" "\<not> isLoser (players g) (losersOf g) b"
       "\<forall>s. smallWinnerOf g = Some s \<longrightarrow> isLoser (players g) (losersOf g) s" for b
  proof (cases "smallWinnerOf g")
    case None
    then show ?thesis using that f(1-3) bigWinnerOf_index[OF that(1)] by (auto simp: d)
  next
    case (Some s)
    then have "isLoser (players g) (losersOf g) s" using that(3) by simp
    moreover have "playerId (players g ! s) \<noteq> playerId (players g ! b)"
      using that(2) calculation by (auto simp: isLoser_def)
    ultimately show ?thesis
      using Some that f(1-3) bigWinnerOf_index[OF that(1)] by (auto simp: d)
  qed
  show ?thesis using a b c e by blast
qed

lemma ev_forfeit:
  "smallWinnerOf forfeitToBob = Some 0 \<and> bigWinnerOf forfeitToBob = Some 1
   \<and> losersOf forfeitToBob = [0]"
  by (simp add: forfeitToBob_def smallWinnerOf_def bigWinnerOf_def losersOf_def
      sample_defs resolve_defs ev1 ev4 ev6)

text \<open>
  Ann bets both, wins small and loses big; Bob bets big and wins it: Bob is paid the pot
  and Ann nothing.
\<close>

lemma forfeit_to_other_winner:
  "0 \<in> set (losersOf forfeitToBob) \<and> bigWinnerOf forfeitToBob = Some 1
   \<and> pot forfeitToBob = 100 \<and> payout forfeitToBob 0 = 0 \<and> payout forfeitToBob 1 = 100"
proof -
  have l: "0 \<in> set (losersOf forfeitToBob)" by (simp add: ev_forfeit)
  have n: "\<not> isLoser (players forfeitToBob) (losersOf forfeitToBob) 1"
    by (simp only: ev_forfeit) (simp add: isLoser_def forfeitToBob_def sample_defs)
  have s: "\<forall>s. smallWinnerOf forfeitToBob = Some s \<longrightarrow>
             isLoser (players forfeitToBob) (losersOf forfeitToBob) s"
    by (simp only: ev_forfeit) (simp add: isLoser_def)
  have p: "pot forfeitToBob = 100" by (simp add: forfeitToBob_def sample_defs)
  from forfeiting_player_unpaid [OF l] n s p show ?thesis by (simp add: ev_forfeit)
qed

section \<open>Frame lemmas for dealing\<close>

lemma sameTable_refl [simp]: "sameTable w w"
  by (simp add: sameTable_def)

lemma sameTable_trans: "sameTable a b \<Longrightarrow> sameTable b c \<Longrightarrow> sameTable a c"
  by (simp add: sameTable_def)

lemma map_update_same:
  assumes "h (f (xs ! i)) = h (xs ! i)"
  shows "map h (xs[i := f (xs ! i)]) = map h xs"
proof (cases "i < length xs")
  case True
  have "map h (xs[i := f (xs ! i)]) = (map h xs)[i := h (f (xs ! i))]" by (rule map_update)
  also have "\<dots> = (map h xs)[i := map h xs ! i]" using assms True by simp
  also have "\<dots> = map h xs" by (rule list_update_id)
  finally show ?thesis .
next
  case False
  then show ?thesis by (simp add: list_update_beyond)
qed

lemma game_updatePlayer:
  "game (updatePlayer i f w) =
     (game w)\<lparr>players := (players (game w))[i := f (players (game w) ! i)]\<rparr>"
  by (simp add: updatePlayer_def)

lemma sameTable_updatePlayer:
  "core (f (players (game w) ! i)) = core (players (game w) ! i) \<Longrightarrow>
     sameTable w (updatePlayer i f w)"
  by (simp add: sameTable_def map_update_same game_updatePlayer)

lemma sameTable_updatePlayer_randoms:
  "core (f (players (game w) ! i)) = core (players (game w) ! i) \<Longrightarrow>
     sameTable w (updatePlayer i f (w\<lparr>randoms := r\<rparr>))"
  by (simp add: sameTable_def map_update_same game_updatePlayer)

lemma sameTable_requireSwap [simp]: "sameTable w (w'\<lparr>requireSwap := r\<rparr>) = sameTable w w'"
  by (simp add: sameTable_def)

lemma sameTable_pop [simp]: "sameTable (pop w) w' = sameTable w w'"
  by (simp add: sameTable_def pop_def updateGame_def)

lemma dealCard_frame: "dealtWorld (dealCard i c w) = Some w' \<Longrightarrow> sameTable w w'"
  unfolding dealCard_def Let_def
  by (auto split: if_splits
        intro!: sameTable_updatePlayer sameTable_updatePlayer_randoms
        simp: core_def receive_def)

lemma dealWhile_frame: "dealtWorld (dealWhile t i w) = Some w' \<Longrightarrow> sameTable w w'"
proof (induction t i w rule: dealWhile.induct)
  case (1 t i w)
  show ?case
  proof (cases "numberCount (players (game w) ! i) < t \<and> deck (game w) \<noteq> []")
    case False
    with "1.prems" show ?thesis by (auto simp: dealWhile.simps[of t i w] split: if_splits)
  next
    case True
    show ?thesis
    proof (cases "dealCard i (last (deck (game w))) (pop w)")
      case (Dealing w1)
      with True "1.prems" have "dealtWorld (dealWhile t i w1) = Some w'"
        by (simp add: dealWhile.simps[of t i w])
      with "1.IH"[of w1] True Dealing have "sameTable w1 w'" by simp
      moreover have "sameTable w w1" using dealCard_frame[of i "last (deck (game w))" "pop w" w1] Dealing by simp
      ultimately show ?thesis by (rule sameTable_trans[rotated])
    next
      case (Stopped r)
      with True "1.prems" have "dealtWorld (dealCard i (last (deck (game w))) (pop w)) = Some w'"
        by (simp add: dealWhile.simps[of t i w])
      then show ?thesis using dealCard_frame[of i "last (deck (game w))" "pop w" w'] by simp
    qed
  qed
qed

lemma dealFor_frame: "dealtWorld (dealFor t n i w) = Some w' \<Longrightarrow> sameTable w w'"
proof (induction n arbitrary: i w)
  case 0
  then show ?case by simp
next
  case (Suc n)
  show ?case
  proof (cases "dealWhile t i w")
    case (Dealing w1)
    with Suc.prems have "dealtWorld (dealFor t n (Suc i) w1) = Some w'" by simp
    then have "sameTable w1 w'" by (rule Suc.IH)
    moreover have "sameTable w w1" using dealWhile_frame[of t i w w1] Dealing by simp
    ultimately show ?thesis by (rule sameTable_trans[rotated])
  next
    case (Stopped r)
    with Suc.prems show ?thesis using dealWhile_frame[of t i w w'] by simp
  qed
qed

lemma sameTable_takeBack: "sameTable w (takeBack w)"
  by (simp add: sameTable_def takeBack_def updateGame_def core_def)

lemma firstUnfolded_fields [simp]:
  "players (firstUnfolded g) = players g" "pot (firstUnfolded g) = pot g"
  "phase (firstUnfolded g) = phase g" "currentBet (firstUnfolded g) = currentBet g"
  "winnersSmall (firstUnfolded g) = winnersSmall g" "winnersBig (firstUnfolded g) = winnersBig g"
  by (simp_all add: firstUnfolded_def split: option.splits)

lemma dealtTable_afterDealing: "dealtTable w (updateGame afterDealing w)"
  by (simp add: dealtTable_def afterDealing_def updateGame_def openBetting2_def core_def)

lemma dealtTable_step: "sameTable a b \<Longrightarrow> dealtTable b c \<Longrightarrow> dealtTable a c"
  by (auto simp: sameTable_def dealtTable_def)

lemma sameTable_dealtTable: "sameTable a b \<Longrightarrow> dealtTable a b"
  by (simp add: sameTable_def dealtTable_def)

lemma dealCards_frame: "resultWorld (dealCards t e w) = Some w' \<Longrightarrow> dealtTable w w'"
proof (induction t e w rule: dealCards.induct)
  case (1 t e w)
  note u = "1.prems"[unfolded dealCards.simps[of t e w]]
  show ?case
  proof (cases "dealFor t (length (players (game w))) 0 w")
    case (Stopped r)
    with u have "dealtWorld (dealFor t (length (players (game w))) 0 w) = Some w'" by simp
    then show ?thesis by (intro sameTable_dealtTable dealFor_frame)
  next
    case (Dealing w1)
    then have s: "sameTable w w1"
      using dealFor_frame[of t "length (players (game w))" 0 w w1] by simp
    show ?thesis
    proof (cases "e \<and> \<not> allPlayersHaveTargetCards t (game w1)")
      case False
      with Dealing u have "w' = updateGame afterDealing w1" by simp
      then show ?thesis using s dealtTable_afterDealing dealtTable_step by blast
    next
      case True
      show ?thesis
      proof (cases "waitingForSwap (game w1)")
        case True
        with \<open>e \<and> \<not> allPlayersHaveTargetCards t (game w1)\<close> Dealing u have "w' = w1" by simp
        then show ?thesis using s by (simp add: sameTable_dealtTable)
      next
        case False
        with True Dealing u have "resultWorld (dealCards t e (takeBack w1)) = Some w'" by simp
        with "1.IH"[OF Dealing True False] have "dealtTable (takeBack w1) w'" by simp
        moreover have "sameTable w (takeBack w1)"
          using s sameTable_takeBack sameTable_trans by blast
        ultimately show ?thesis by (rule dealtTable_step[rotated])
      qed
    qed
  qed
qed

section \<open>Lemmas about bets, calls and turns\<close>

lemma findIndexFrom_Some:
  "findIndexFrom k P xs = Some i \<Longrightarrow> k \<le> i \<and> i - k < length xs \<and> P (xs ! (i - k))"
proof (induction xs arbitrary: k)
  case Nil
  then show ?case by simp
next
  case (Cons x xs)
  show ?case
  proof (cases "P x")
    case True
    with Cons.prems show ?thesis by simp
  next
    case False
    with Cons.prems have "findIndexFrom (Suc k) P xs = Some i" by simp
    from Cons.IH[OF this] show ?thesis by (auto simp: Suc_diff_Suc less_eq_Suc_le)
  qed
qed

lemma findIndex_Some: "findIndex P xs = Some i \<Longrightarrow> i < length xs \<and> P (xs ! i)"
  using findIndexFrom_Some[of 0 P xs i] by (simp add: findIndex_def)

lemma findIndexFrom_map: "findIndexFrom k (\<lambda>p. Q (f p)) xs = findIndexFrom k Q (map f xs)"
  by (induction xs arbitrary: k) auto

lemma findIndex_cong_map:
  "map f xs = map f ys \<Longrightarrow> findIndex (\<lambda>p. Q (f p)) xs = findIndex (\<lambda>p. Q (f p)) ys"
  by (simp add: findIndex_def findIndexFrom_map)


lemma nextTurn_map:
  assumes "length xs = length ys"
    and "map (\<lambda>p. (isFolded p, isActive p)) xs = map (\<lambda>p. (isFolded p, isActive p)) ys"
  shows "i < length xs \<Longrightarrow> nextTurn xs n i = nextTurn ys n i"
proof (induction n arbitrary: i)
  case 0
  show ?case by simp
next
  case (Suc n)
  let ?h = "\<lambda>p. (isFolded p, isActive p)"
  have "map ?h xs ! i = map ?h ys ! i" by (simp only: assms(2))
  moreover have "map ?h xs ! i = ?h (xs ! i)" using Suc.prems by (rule nth_map)
  moreover have "map ?h ys ! i = ?h (ys ! i)" using Suc.prems assms(1) by (intro nth_map) simp
  ultimately have fl: "isFolded (xs ! i) = isFolded (ys ! i)" "isActive (xs ! i) = isActive (ys ! i)"
    by simp_all
  have "0 < length xs" using Suc.prems by arith
  then have "(i + 1) mod length xs < length xs" by (rule mod_less_divisor)
  then have ih: "nextTurn xs n ((i + 1) mod length xs) = nextTurn ys n ((i + 1) mod length xs)"
    by (rule Suc.IH)
  have l: "length ys = length xs" using assms(1) by simp
  show ?case by (simp only: nextTurn.simps fl ih l)
qed

lemma foldl_min_less:
  "(foldl min a xs < (n::int)) = (a < n \<or> (\<exists>x\<in>set xs. x < n))"
  by (induction xs arbitrary: a) (auto simp: min_less_iff_disj)

lemma lowestChips_less:
  "(case lowestChips g of None \<Rightarrow> False | Some m \<Rightarrow> m < n)
     = list_ex (\<lambda>p. \<not> isFolded p \<and> chips p < n) (players g)"
proof -
  let ?fs = "filter (\<lambda>p. \<not> isFolded p) (players g)"
  have r: "list_ex (\<lambda>p. \<not> isFolded p \<and> chips p < n) (players g) = (\<exists>c\<in>set (map chips ?fs). c < n)"
    by (auto simp: list_ex_iff)
  show ?thesis
  proof (cases "map chips ?fs")
    case Nil
    then show ?thesis unfolding r by (simp add: lowestChips_def)
  next
    case (Cons c cs)
    then have "(case lowestChips g of None \<Rightarrow> False | Some m \<Rightarrow> m < n) = (foldl min c cs < n)"
      by (simp add: lowestChips_def Let_def)
    also have "\<dots> = (\<exists>x\<in>set (c # cs). x < n)" by (simp add: foldl_min_less)
    finally show ?thesis unfolding r Cons .
  qed
qed


lemma map_eq_nth:
  assumes "map h xs = map h ys"
  shows "length xs = length ys" and "j < length xs \<Longrightarrow> h (xs ! j) = h (ys ! j)"
proof -
  show l: "length xs = length ys" using assms by (metis length_map)
  assume j: "j < length xs"
  have "map h xs ! j = map h ys ! j" by (simp only: assms)
  then show "h (xs ! j) = h (ys ! j)" using j l by simp
qed

lemma core_nth:
  assumes "map core xs = map core ys" and "j < length xs"
  shows "playerId (xs ! j) = playerId (ys ! j)" and "chips (xs ! j) = chips (ys ! j)"
    and "isFolded (xs ! j) = isFolded (ys ! j)" and "isActive (xs ! j) = isActive (ys ! j)"
  using map_eq_nth(2)[OF assms] by (simp_all add: core_def)


lemma awardPot_fields:
  "players (game (awardPot k w)) =
     (players (game w))[k := (players (game w) ! k)
        \<lparr>chips := chips (players (game w) ! k) + pot (game w)\<rparr>]"
  "pot (game (awardPot k w)) = pot (game w)"
  "phase (game (awardPot k w)) = Ended"
  "currentBet (game (awardPot k w)) = currentBet (game w)"
  "currentPlayer (game (awardPot k w)) = currentPlayer (game w)"
  "winnersSmall (game (awardPot k w)) = [playerId (players (game w) ! k)]"
  "winnersBig (game (awardPot k w)) = [playerId (players (game w) ! k)]"
  by (simp_all add: awardPot_def updateGame_def updatePlayer_def)

lemma hd_indicesWhere:
  assumes "indicesWhere P xs \<noteq> []"
  shows "hd (indicesWhere P xs) < length xs" and "P (xs ! hd (indicesWhere P xs))"
proof -
  have "hd (indicesWhere P xs) \<in> set (indicesWhere P xs)" using assms by (rule hd_in_set)
  then show "hd (indicesWhere P xs) < length xs" and "P (xs ! hd (indicesWhere P xs))"
    by (simp_all add: indicesWhere_def)
qed

lemma nth_update_if: "xs[k := v] ! j = (if k = j \<and> k < length xs then v else xs ! j)"
  by (cases "k < length xs") (auto simp: nth_list_update list_update_beyond)

lemma checkPlayerElimination_cases:
  "checkPlayerElimination i w =
     (if 0 < chips (players (game w) ! i) then w
      else if length (indicesWhere inRound (players (game (updatePlayer i eliminate w)))) \<le> 1 \<and>
              indicesWhere inRound (players (game (updatePlayer i eliminate w))) \<noteq> []
      then awardPot (hd (indicesWhere inRound (players (game (updatePlayer i eliminate w)))))
             (updatePlayer i eliminate w)
      else updatePlayer i eliminate w)"
  by (simp add: checkPlayerElimination_def Let_def not_less)

lemma eliminated_fields:
  assumes "i < length (players (game w))"
  shows "length (players (game (checkPlayerElimination i w))) = length (players (game w))"
    and "playerId (players (game (checkPlayerElimination i w)) ! j) = playerId (players (game w) ! j)"
    and "bet (players (game (checkPlayerElimination i w)) ! j) = bet (players (game w) ! j)"
    and "chips (players (game (checkPlayerElimination i w)) ! i) = chips (players (game w) ! i)"
    and "pot (game (checkPlayerElimination i w)) = pot (game w)"
    and "currentBet (game (checkPlayerElimination i w)) = currentBet (game w)"
    and "currentPlayer (game (checkPlayerElimination i w)) = currentPlayer (game w)"
    and "phase (game (checkPlayerElimination i w)) = phase (game w)
         \<or> phase (game (checkPlayerElimination i w)) = Ended"
proof -
  let ?w1 = "updatePlayer i eliminate w"
  let ?k = "hd (indicesWhere inRound (players (game ?w1)))"
  have p1: "players (game ?w1) = (players (game w))[i := eliminate (players (game w) ! i)]"
    by (simp add: game_updatePlayer)
  have ki: "?k \<noteq> i" if "indicesWhere inRound (players (game ?w1)) \<noteq> []"
  proof
    assume "?k = i"
    with hd_indicesWhere(2)[OF that] have "inRound (players (game ?w1) ! i)" by simp
    then show False using assms by (simp add: p1 inRound_def eliminate_def)
  qed
  note s = checkPlayerElimination_cases awardPot_fields game_updatePlayer nth_update_if
    eliminate_def
  show "length (players (game (checkPlayerElimination i w))) = length (players (game w))"
    by (simp add: s)
  show "playerId (players (game (checkPlayerElimination i w)) ! j) = playerId (players (game w) ! j)"
    by (simp add: s)
  show "bet (players (game (checkPlayerElimination i w)) ! j) = bet (players (game w) ! j)"
    by (simp add: s)
  show "chips (players (game (checkPlayerElimination i w)) ! i) = chips (players (game w) ! i)"
    using assms ki by (simp add: s)
  show "pot (game (checkPlayerElimination i w)) = pot (game w)" by (simp add: s)
  show "currentBet (game (checkPlayerElimination i w)) = currentBet (game w)" by (simp add: s)
  show "currentPlayer (game (checkPlayerElimination i w)) = currentPlayer (game w)"
    by (simp add: s)
  show "phase (game (checkPlayerElimination i w)) = phase (game w)
         \<or> phase (game (checkPlayerElimination i w)) = Ended"
    by (simp add: s)
qed


lemma dealtTable_phase:
  assumes "resultWorld (dealCards t e (updateGame (\<lambda>g. g\<lparr>phase := ph\<rparr>) w)) = Some w'"
    and "ph = Dealing1 \<or> ph = Dealing2"
  shows "map core (players (game w')) = map core (players (game w))"
    and "pot (game w') = pot (game w)"
    and "winnersSmall (game w') = winnersSmall (game w)"
    and "winnersBig (game w') = winnersBig (game w)"
    and "phase (game w') = ph \<or> ph = Dealing1 \<and> phase (game w') = Betting1
         \<or> ph = Dealing2 \<and> phase (game w') = Betting2"
  using dealCards_frame[OF assms(1)] assms(2)
  by (auto simp: dealtTable_def updateGame_def)

lemma advance_frame:
  assumes "resultWorld (advanceGamePhase w) = Some w'"
    and "phase (game w) = Preflop \<or> phase (game w) = Betting1 \<or> phase (game w) = Betting2"
  shows "map core (players (game w')) = map core (players (game w))"
    and "pot (game w') = pot (game w)"
    and "winnersSmall (game w') = winnersSmall (game w)"
    and "winnersBig (game w') = winnersBig (game w)"
    and "phase (game w') \<noteq> phase (game w)"
    and "phase (game w') \<noteq> Ended"
proof -
  consider (a) "phase (game w) = Preflop" | (b) "phase (game w) = Betting1"
    | (c) "phase (game w) = Betting2" using assms(2) by blast
  then have "map core (players (game w')) = map core (players (game w))
      \<and> pot (game w') = pot (game w)
      \<and> winnersSmall (game w') = winnersSmall (game w)
      \<and> winnersBig (game w') = winnersBig (game w)
      \<and> phase (game w') \<noteq> phase (game w) \<and> phase (game w') \<noteq> Ended"
  proof cases
    case a
    with assms(1) have
      "resultWorld (dealCards 2 True (updateGame (\<lambda>g. g\<lparr>phase := Dealing1\<rparr>) w)) = Some w'"
      by (simp add: advanceGamePhase_def)
    from dealtTable_phase[OF this] a show ?thesis by auto
  next
    case b
    with assms(1) have
      "resultWorld (dealCards 4 True (updateGame (\<lambda>g. g\<lparr>phase := Dealing2\<rparr>) w)) = Some w'"
      by (simp add: advanceGamePhase_def)
    from dealtTable_phase[OF this] b show ?thesis by auto
  next
    case c
    with assms(1) have "w' = updateGame (\<lambda>g. firstUnfolded (g\<lparr>phase := Equation\<rparr>)) w"
      by (simp add: advanceGamePhase_def)
    with c show ?thesis by (simp add: updateGame_def)
  qed
  then show "map core (players (game w')) = map core (players (game w))"
    and "pot (game w') = pot (game w)"
    and "winnersSmall (game w') = winnersSmall (game w)"
    and "winnersBig (game w') = winnersBig (game w)"
    and "phase (game w') \<noteq> phase (game w)"
    and "phase (game w') \<noteq> Ended" by simp_all
qed

text \<open>
  What \<^verbatim>\<open>moveToNextPlayer\<close> does when it returns: either it ends the betting round (the
  phase changes, and not to \<open>Ended\<close>), or it only writes \<open>currentPlayer\<close>.
\<close>

lemma move_cases:
  assumes "moveToNextPlayer w = Returns w'"
    and "findIndex (\<lambda>p. playerId p = currentPlayer (game w)) (players (game w)) = Some cur"
  shows "(isBettingPhase (game w) \<and> resultWorld (advanceGamePhase w) = Some w')
       \<or> (\<exists>nxt. nextTurn (players (game w)) (length (players (game w)))
                   ((cur + 1) mod length (players (game w))) = Some nxt
              \<and> w' = updateGame (\<lambda>g. g\<lparr>currentPlayer := playerId (players (game w) ! nxt)\<rparr>) w)"
  using assms
  by (auto simp: moveToNextPlayer_def Let_def isBettingPhase_def split: option.splits if_splits)

section \<open>Betting\<close>

text \<open>
  In a betting phase every action of a player other than \<open>currentPlayer\<close>, except
  \<^verbatim>\<open>swapCard\<close>, is rejected before anything is written.
\<close>

lemma not_your_turn:
  assumes "findIndex (\<lambda>p. playerId p = actionPlayerId a) (players (game w)) = Some i"
    and "actionPlayerId a \<noteq> currentPlayer (game w)"
    and "isBettingPhase (game w)"
    and "actionType a \<noteq> SwapCard"
  shows "performAction a w = Throws NotYourTurn w"
proof -
  have "playerId (players (game w) ! i) = actionPlayerId a"
    using findIndex_Some[OF assms(1)] by simp
  then show ?thesis
    using assms by (auto simp: performAction_def isBettingPhase_def)
qed

text \<open>
  C4, evaluated. By the claim an accepted bet makes the player's bet of the round the
  amount. The code adds the amount to it (\<^verbatim>\<open>player.bet += amount\<close>) and sets
  \<^verbatim>\<open>currentBet\<close> to the amount. Ann bets 10, Bob bets 20, Ann bets 30: all three are
  accepted, \<^verbatim>\<open>currentBet\<close> is 30 and Ann's bet of the round is 40. Bob calls and pays 10;
  the bets are 40 and 30, so the round is not closed. Ann calls: she owes 30 - 40, is
  paid 10 chips out of the pot and her bet becomes 30.
\<close>

theorem raise_adds_to_bet:
  "observe bets raised = Some [40, 20]
   \<and> observe currentBetOf raised = Some 30
   \<and> observe stacks raised = Some [960, 980]
   \<and> observe potOf raised = Some 60
   \<and> observe turn raised = Some ''bob''
   \<and> observe bets called = Some [40, 30]
   \<and> observe stacks called = Some [960, 970]
   \<and> observe potOf called = Some 70
   \<and> observe phaseOf called = Some Preflop
   \<and> observe turn called = Some ''ann''
   \<and> observe bets calledBack = Some [30, 30]
   \<and> observe stacks calledBack = Some [970, 970]
   \<and> observe potOf calledBack = Some 60"
proof -
  note d = raised_def started_def seated_def lobby_def run_defs bets_def turn_def stacks_def
    potOf_def currentBetOf_def phaseOf_def isSinglePlayerMode_def isBot_def
  have a: "observe bets raised = Some [40, 20]
     \<and> observe currentBetOf raised = Some 30
     \<and> observe stacks raised = Some [960, 980]
     \<and> observe potOf raised = Some 60
     \<and> observe turn raised = Some ''bob''"
    by (simp add: d)
  have b: "observe bets called = Some [40, 30]
     \<and> observe stacks called = Some [960, 970]
     \<and> observe potOf called = Some 70
     \<and> observe phaseOf called = Some Preflop
     \<and> observe turn called = Some ''ann''"
    by (simp add: called_def d)
  have c: "observe bets calledBack = Some [30, 30]
     \<and> observe stacks calledBack = Some [970, 970]
     \<and> observe potOf calledBack = Some 60"
    by (simp add: calledBack_def called_def d)
  show ?thesis using a b c by simp
qed

lemma performAction_bet:
  assumes "findIndex (\<lambda>p. playerId p = actionPlayerId a) (players (game w)) = Some i"
    and "actionPlayerId a = currentPlayer (game w)"
    and "isBettingPhase (game w)"
    and "actionType a = Bet" and "amount a = Some n"
  shows "performAction a w =
     (if isDealingPhase (game w) then Throws NotWhileDealing w else handleBet i n w)"
proof -
  have "playerId (players (game w) ! i) = actionPlayerId a"
    using findIndex_Some[OF assms(1)] by simp
  then show ?thesis
    using assms by (simp add: performAction_def dispatch_def bettingAction_def)
qed

text \<open>
  What a bet does, for every state. A bet of \<open>n\<close> by the current player \<open>i\<close> in a
  betting phase is rejected with an error and the world unchanged when \<open>n\<close> is not above
  \<open>currentBet\<close>, or above the player's chips, or above the chips of some player who has
  not folded. When it is accepted the player's chips go down by \<open>n\<close> and the pot goes up
  by \<open>n\<close>; and where the phase stays as it was, \<open>currentBet\<close> is \<open>n\<close>, the player's
  bet has grown by \<open>n\<close>, and the turn is with the next player after \<open>i\<close> who is neither
  folded nor inactive.
\<close>

lemma accepted_bet:
  assumes "findIndex (\<lambda>p. playerId p = actionPlayerId a) (players (game w)) = Some i"
    and "actionPlayerId a = currentPlayer (game w)"
    and "isBettingPhase (game w)"
    and "actionType a = Bet" and "amount a = Some n"
  shows "(n \<le> currentBet (game w) \<or> chips (players (game w) ! i) < n
          \<or> list_ex (\<lambda>p. \<not> isFolded p \<and> chips p < n) (players (game w))
          \<longrightarrow> (\<exists>e. performAction a w = Throws e w))
       \<and> (\<forall>w'. performAction a w = Returns w' \<longrightarrow>
             chips (players (game w') ! i) = chips (players (game w) ! i) - n
           \<and> pot (game w') = pot (game w) + n
           \<and> (phase (game w') = phase (game w) \<longrightarrow>
                currentBet (game w') = n
              \<and> bet (players (game w') ! i) = bet (players (game w) ! i) + n
              \<and> (\<exists>nxt. nextTurn (players (game w')) (length (players (game w')))
                          ((i + 1) mod length (players (game w'))) = Some nxt
                    \<and> currentPlayer (game w') = playerId (players (game w') ! nxt))))"
proof (intro conjI impI allI)
  note pa = performAction_bet[OF assms]
  assume "n \<le> currentBet (game w) \<or> chips (players (game w) ! i) < n
          \<or> list_ex (\<lambda>p. \<not> isFolded p \<and> chips p < n) (players (game w))"
  then show "\<exists>e. performAction a w = Throws e w"
    unfolding pa handleBet_def lowestChips_less by auto
next
  fix w'
  assume r: "performAction a w = Returns w'"
  note pa = performAction_bet[OF assms]
  let ?ps = "players (game w)"
  let ?w0 = "updateGame (\<lambda>g. g\<lparr>currentBet := n\<rparr>) (placeBet i n w)"
  let ?w1 = "checkPlayerElimination i ?w0"
  have il: "i < length ?ps" and iid: "playerId (?ps ! i) = actionPlayerId a"
    using findIndex_Some[OF assms(1)] by simp_all
  have m: "moveToNextPlayer ?w1 = Returns w'"
    using r unfolding pa handleBet_def by (simp split: if_splits)
  have p0: "players (game ?w0) = ?ps[i := (?ps ! i)\<lparr>chips := chips (?ps ! i) - n,
                bet := bet (?ps ! i) + n\<rparr>]"
    and g0: "pot (game ?w0) = pot (game w) + n" "phase (game ?w0) = phase (game w)"
      "currentBet (game ?w0) = n" "currentPlayer (game ?w0) = currentPlayer (game w)"
    by (simp_all add: updateGame_def placeBet_def updatePlayer_def)
  have il0: "i < length (players (game ?w0))" using il by (simp add: p0)
  note e = eliminated_fields[OF il0]
  have ids: "map playerId (players (game ?w1)) = map playerId ?ps"
    by (rule nth_equalityI) (simp_all add: e(1,2) p0 nth_update_if)
  have cur: "findIndex (\<lambda>p. playerId p = currentPlayer (game ?w1)) (players (game ?w1)) = Some i"
    using findIndex_cong_map[OF ids, of "\<lambda>x. x = currentPlayer (game w)"] assms(1,2)
    by (simp add: e(7) g0)
  have c1: "chips (players (game ?w1) ! i) = chips (?ps ! i) - n"
    and b1: "bet (players (game ?w1) ! i) = bet (?ps ! i) + n"
    and l1: "length (players (game ?w1)) = length ?ps"
    using il by (simp_all add: e p0)
  have q1: "pot (game ?w1) = pot (game w) + n" "currentBet (game ?w1) = n"
    by (simp_all add: e g0)
  from move_cases[OF m cur] consider
    (adv) "isBettingPhase (game ?w1)" "resultWorld (advanceGamePhase ?w1) = Some w'"
    | (nxt) nxt where "nextTurn (players (game ?w1)) (length (players (game ?w1)))
                   ((i + 1) mod length (players (game ?w1))) = Some nxt"
        "w' = updateGame (\<lambda>g. g\<lparr>currentPlayer := playerId (players (game ?w1) ! nxt)\<rparr>) ?w1"
    by blast
  then have "chips (players (game w') ! i) = chips (?ps ! i) - n
           \<and> pot (game w') = pot (game w) + n
           \<and> (phase (game w') = phase (game w) \<longrightarrow>
                currentBet (game w') = n
              \<and> bet (players (game w') ! i) = bet (?ps ! i) + n
              \<and> (\<exists>nxt. nextTurn (players (game w')) (length (players (game w')))
                          ((i + 1) mod length (players (game w'))) = Some nxt
                    \<and> currentPlayer (game w') = playerId (players (game w') ! nxt)))"
  proof cases
    case adv
    have bp: "phase (game ?w1) = Preflop \<or> phase (game ?w1) = Betting1
              \<or> phase (game ?w1) = Betting2"
      using adv(1) by (auto simp: isBettingPhase_def)
    note f = advance_frame[OF adv(2) bp]
    have "phase (game ?w1) = phase (game w)" using e(8) bp by (auto simp: g0)
    then have "phase (game w') \<noteq> phase (game w)" using f(5) by simp
    moreover have "chips (players (game w') ! i) = chips (players (game ?w1) ! i)"
      using core_nth(2)[OF f(1)] il map_eq_nth(1)[OF f(1)] l1 by simp
    ultimately show ?thesis using f(2) c1 q1 by simp
  next
    case nxt
    then show ?thesis using c1 b1 q1 by (simp add: updateGame_def)
  qed
  then show "chips (players (game w') ! i) = chips (players (game w) ! i) - n"
    and "pot (game w') = pot (game w) + n"
    and "phase (game w') = phase (game w) \<Longrightarrow> currentBet (game w') = n"
    and "phase (game w') = phase (game w) \<Longrightarrow>
           bet (players (game w') ! i) = bet (players (game w) ! i) + n"
    and "phase (game w') = phase (game w) \<Longrightarrow>
           \<exists>nxt. nextTurn (players (game w')) (length (players (game w')))
                          ((i + 1) mod length (players (game w'))) = Some nxt
                    \<and> currentPlayer (game w') = playerId (players (game w') ! nxt)"
    by simp_all
qed

text \<open>At the table: a bet of 2000 is refused, a bet of 50 is accepted.\<close>

lemma accepted_bet_example:
  "(\<exists>e. performAction (betting ''ann'' 2000) table = Throws e table)
   \<and> (\<exists>w'. performAction (betting ''ann'' 50) table = Returns w'
          \<and> chips (players (game w') ! 0) = 950 \<and> pot (game w') = 50
          \<and> currentBet (game w') = 50 \<and> bet (players (game w') ! 0) = 50
          \<and> currentPlayer (game w') = ''bob'')"
proof -
  note d = table_def sampleWorld_def ann_def bob_def run_defs
  have h: "findIndex (\<lambda>p. playerId p = actionPlayerId (betting ''ann'' n)) (players (game table))
             = Some 0"
    "actionPlayerId (betting ''ann'' n) = currentPlayer (game table)"
    "isBettingPhase (game table)"
    "actionType (betting ''ann'' n) = Bet" "amount (betting ''ann'' n) = Some n" for n
    by (simp_all add: d)
  have a: "\<exists>e. performAction (betting ''ann'' 2000) table = Throws e table"
    using accepted_bet[OF h, of 2000] by (simp add: d)
  obtain w' where r: "performAction (betting ''ann'' 50) table = Returns w'"
    and p: "phase (game w') = phase (game table)"
    and n: "nextTurn (players (game w')) (length (players (game w')))
              ((0 + 1) mod length (players (game w'))) = Some 1"
    and i: "playerId (players (game w') ! 1) = ''bob''"
    by (simp add: d)
  from accepted_bet[OF h, of 50] r p n i
  have "chips (players (game w') ! 0) = 950 \<and> pot (game w') = 50
          \<and> currentBet (game w') = 50 \<and> bet (players (game w') ! 0) = 50
          \<and> currentPlayer (game w') = ''bob''"
    by (auto simp: d)
  with r a show ?thesis by blast
qed

section \<open>Chip elimination\<close>










section \<open>The loop that looks for the next player\<close>

lemma nextTurn_None:
  "nextTurn ps n i = None \<longleftrightarrow> (\<forall>k<n. \<not> inRound (ps ! ((i + k) mod length ps)))"
  if "i < length ps"
  using that
proof (induction n arbitrary: i)
  case 0
  then show ?case by simp
next
  case (Suc n)
  have l: "0 < length ps" using Suc.prems by arith
  then have m: "(i + 1) mod length ps < length ps" by (rule mod_less_divisor)
  have s: "(Suc i mod length ps + k) mod length ps = Suc (i + k) mod length ps" for k
    by (metis add_Suc mod_add_left_eq)
  have "(\<forall>k<Suc n. \<not> inRound (ps ! ((i + k) mod length ps)))
      = (\<not> inRound (ps ! i) \<and> (\<forall>k<n. \<not> inRound (ps ! ((i + Suc k) mod length ps))))"
    using Suc.prems by (auto simp: less_Suc_eq_0_disj)
  then show ?case using Suc.IH[OF m] Suc.prems by (simp add: s inRound_def)
qed

lemma cycle_covers:
  assumes "i < n" and "j < (n::nat)"
  shows "\<exists>k<n. (i + k) mod n = j"
proof (cases "i \<le> j")
  case True
  then have "(i + (j - i)) mod n = j" using assms by simp
  moreover have "j - i < n" using assms by simp
  ultimately show ?thesis by blast
next
  case False
  then have "(i + (j + n - i)) mod n = j" using assms by simp
  moreover have "j + n - i < n" using False assms by simp
  ultimately show ?thesis by blast
qed

text \<open>
  The fuel of \<open>nextTurn\<close> is enough: started inside the array with \<open>length ps\<close> steps, it
  finds no player exactly when every player is folded or inactive, which is when the
  source's loop does not end.
\<close>

lemma nextTurn_fuel:
  assumes "i < length ps"
  shows "nextTurn ps (length ps) i = None \<longleftrightarrow> \<not> list_ex inRound ps"
proof
  assume "nextTurn ps (length ps) i = None"
  then have n: "\<forall>k<length ps. \<not> inRound (ps ! ((i + k) mod length ps))"
    using nextTurn_None[OF assms] by simp
  have "\<not> inRound (ps ! j)" if "j < length ps" for j
  proof -
    from cycle_covers[OF assms that] obtain k where "k < length ps" "(i + k) mod length ps = j"
      by blast
    with n show ?thesis by auto
  qed
  then show "\<not> list_ex inRound ps" by (auto simp: list_ex_iff in_set_conv_nth)
next
  assume a: "\<not> list_ex inRound ps"
  have "\<not> inRound (ps ! ((i + k) mod length ps))" for k
  proof -
    have "0 < length ps" using assms by arith
    then have "(i + k) mod length ps < length ps" by (rule mod_less_divisor)
    then have "ps ! ((i + k) mod length ps) \<in> set ps" by simp
    with a show ?thesis by (auto simp: list_ex_iff)
  qed
  then show "nextTurn ps (length ps) i = None" using nextTurn_None[OF assms] by simp
qed

end
